theory Spec2Isabelle
  imports Complex_Main
begin

section \<open>JavaScript values and errors\<close>

text \<open>
  The renderer is JavaScript. Numbers are modelled as reals (rounding of doubles and of
  \<^verbatim>\<open>Float32Array\<close> is left out; no property below depends on it), \<^verbatim>\<open>undefined\<close> and
  \<^verbatim>\<open>null\<close> are values of their own, an array is a list and an object is an association
  list of its own properties.
\<close>

datatype jsval =
    Undefined
  | Null
  | Num real
  | Str string
  | Bool bool
  | Arr "jsval list"
  | Obj "(string \<times> jsval) list"

text \<open>A thrown exception: \<^verbatim>\<open>new Error(msg)\<close>, or the \<^verbatim>\<open>TypeError\<close> of the engine.\<close>

datatype error = Error string | TypeError string

fun typeof :: "jsval \<Rightarrow> string" where
  "typeof Undefined = ''undefined''"
| "typeof Null = ''object''"
| "typeof (Num n) = ''number''"
| "typeof (Str s) = ''string''"
| "typeof (Bool b) = ''boolean''"
| "typeof (Arr xs) = ''object''"
| "typeof (Obj fs) = ''object''"

text \<open>\<^verbatim>\<open>args[i]\<close>: an index outside the array (also a negative one) reads \<^verbatim>\<open>undefined\<close>.\<close>

definition js_at :: "jsval list \<Rightarrow> int \<Rightarrow> jsval" where
  "js_at xs i = (if 0 \<le> i \<and> i < int (length xs) then xs ! nat i else Undefined)"

text \<open>
  \<^verbatim>\<open>v.k\<close> for the property names \<^verbatim>\<open>x\<close>, \<^verbatim>\<open>y\<close>, \<^verbatim>\<open>z\<close>: reading a property of
  \<^verbatim>\<open>undefined\<close> or \<^verbatim>\<open>null\<close> throws a TypeError; a number, string, boolean or array has no
  such property and reads \<^verbatim>\<open>undefined\<close>; an object reads its field, or \<^verbatim>\<open>undefined\<close>.
\<close>

fun js_get :: "jsval \<Rightarrow> string \<Rightarrow> error + jsval" where
  "js_get Undefined k = Inl (TypeError (''Cannot read property '' @ k @ '' of undefined''))"
| "js_get Null k = Inl (TypeError (''Cannot read property '' @ k @ '' of null''))"
| "js_get (Obj fs) k = Inr (case map_of fs k of None \<Rightarrow> Undefined | Some v \<Rightarrow> v)"
| "js_get (Num n) k = Inr Undefined"
| "js_get (Str s) k = Inr Undefined"
| "js_get (Bool b) k = Inr Undefined"
| "js_get (Arr xs) k = Inr Undefined"

text \<open>\<^verbatim>\<open>data[i]\<close> on the data handed to a uniform; the callers in the source pass arrays.\<close>

fun js_elem :: "jsval \<Rightarrow> nat \<Rightarrow> jsval" where
  "js_elem (Arr xs) i = (if i < length xs then xs ! i else Undefined)"
| "js_elem v i = Undefined"

text \<open>\<^verbatim>\<open>a || d\<close> on an optional number: \<^verbatim>\<open>undefined\<close> and \<^verbatim>\<open>0\<close> are falsy.\<close>

definition js_or :: "real option \<Rightarrow> real \<Rightarrow> real" where
  "js_or a d = (case a of None \<Rightarrow> d | Some v \<Rightarrow> if v = 0 then d else v)"

text \<open>\<^verbatim>\<open>s.indexOf(sub)\<close> and \<^verbatim>\<open>s.substring(0, e)\<close> (a negative end counts as 0).\<close>

fun indexOf_from :: "string \<Rightarrow> string \<Rightarrow> int \<Rightarrow> int" where
  "indexOf_from [] sub i = (if sub = [] then i else -1)"
| "indexOf_from (c # cs) sub i =
     (if take (length sub) (c # cs) = sub then i else indexOf_from cs sub (i + 1))"

definition indexOf :: "string \<Rightarrow> string \<Rightarrow> int" where
  "indexOf s sub = indexOf_from s sub 0"

definition substring0 :: "string \<Rightarrow> int \<Rightarrow> string" where
  "substring0 s e = take (nat e) s"

section \<open>p5.Matrix objects and the module-level matrix stack\<close>

text \<open>
  \<^verbatim>\<open>p5.Matrix\<close> is required by the renderer but is not part of the source at hand, so its
  arithmetic is a parameter: the contents of a matrix are of an arbitrary type \<open>'m\<close>, and
  each method of the class is a function on contents. The methods update the object they
  are called on, in place.
\<close>

record 'm matrix_lib =
  m_identity :: 'm
  m_identity3 :: 'm
  m_translate :: "real list \<Rightarrow> 'm \<Rightarrow> 'm"
  m_scale :: "real list \<Rightarrow> 'm \<Rightarrow> 'm"
  m_rotate :: "real \<Rightarrow> real list \<Rightarrow> 'm \<Rightarrow> 'm"
  m_perspective :: "real \<Rightarrow> real \<Rightarrow> real \<Rightarrow> real \<Rightarrow> 'm \<Rightarrow> 'm"
  m_ortho :: "real \<Rightarrow> real \<Rightarrow> real \<Rightarrow> real \<Rightarrow> real \<Rightarrow> real \<Rightarrow> 'm \<Rightarrow> 'm"

text \<open>
  Matrices are objects: a renderer holds references to them, and \<^verbatim>\<open>translate\<close>,
  \<^verbatim>\<open>scale\<close>, \<^verbatim>\<open>rotate\<close> change the object behind the reference. The store maps each
  allocated reference to the contents of its object. It also holds
  \<^verbatim>\<open>var uMVMatrixStack = []\<close>, which is a variable of the module, not a field of a
  renderer; \<^verbatim>\<open>Array.prototype.push\<close> appends at the end and \<^verbatim>\<open>pop\<close> removes the last
  element.
\<close>

record 'm store =
  uMVMatrixStack :: "nat list"
  matrix_of :: "nat \<Rightarrow> 'm"
  next_ref :: nat

definition new_matrix :: "'m \<Rightarrow> 'm store \<Rightarrow> nat \<times> 'm store" where
  "new_matrix m st =
     (next_ref st,
      st\<lparr>matrix_of := (matrix_of st)(next_ref st := m), next_ref := Suc (next_ref st)\<rparr>)"

text \<open>
  Modelled from the spec: \<^verbatim>\<open>p5.Matrix.prototype.copy\<close> (not in the source) returns a copy
  of the matrix: a new object with the same contents.
\<close>

definition matrix_copy :: "nat \<Rightarrow> 'm store \<Rightarrow> nat \<times> 'm store" where
  "matrix_copy a st = new_matrix (matrix_of st a) st"

definition matrix_update :: "nat \<Rightarrow> ('m \<Rightarrow> 'm) \<Rightarrow> 'm store \<Rightarrow> 'm store" where
  "matrix_update a f st = st\<lparr>matrix_of := (matrix_of st)(a := f (matrix_of st a))\<rparr>"

section \<open>The WebGL context\<close>

datatype gl_type =
    GL_BOOL | GL_INT | GL_FLOAT | GL_FLOAT_VEC2 | GL_FLOAT_VEC3 | GL_FLOAT_VEC4
  | GL_FLOAT_MAT3 | GL_FLOAT_MAT4 | GL_SAMPLER_2D | GL_OTHER

datatype shader_stage = VERTEX_SHADER | FRAGMENT_SHADER

datatype blend_factor = GL_ZERO | GL_ONE | GL_SRC_ALPHA | GL_ONE_MINUS_SRC_ALPHA

datatype blend_eq = GL_FUNC_ADD

text \<open>The calls that write uniforms and bind textures, as they are issued.\<close>

datatype gl_call =
    Uniform1i nat jsval
  | Uniform1f nat jsval
  | Uniform1fv nat jsval
  | Uniform2f nat jsval jsval
  | Uniform2fv nat jsval
  | Uniform3f nat jsval jsval jsval
  | Uniform3fv nat jsval
  | Uniform4f nat jsval jsval jsval jsval
  | Uniform4fv nat jsval
  | UniformMatrix3fv nat jsval
  | UniformMatrix4fv nat jsval
  | ActiveTexture nat
  | BindTexture jsval

text \<open>
  The state of the context that the renderer drives: the capability and mask flags, the
  program in use, and the record of the compile, link and uniform calls made so far.
\<close>

record gl_context =
  drawingBufferWidth :: real
  drawingBufferHeight :: real
  depth_test :: bool
  depth_mask :: bool
  blend :: bool
  blend_equation :: blend_eq
  blend_func :: "blend_factor \<times> blend_factor"
  viewport :: "real \<times> real \<times> real \<times> real"
  program_in_use :: "nat option"
  next_program :: nat
  compile_log :: "(shader_stage \<times> string) list"
  link_log :: "nat list"
  uniform_log :: "gl_call list"
  textures_created :: nat

text \<open>What \<^verbatim>\<open>gl.getActiveAttrib\<close> / \<^verbatim>\<open>gl.getActiveUniform\<close> report, with the location.\<close>

record active_info =
  ai_name :: string
  ai_type :: gl_type
  ai_size :: nat
  ai_location :: nat

record attribute =
  a_name :: string
  a_location :: nat
  a_type :: gl_type
  a_size :: nat

record uniform =
  u_location :: nat
  u_size :: nat
  u_name :: string
  u_type :: gl_type
  samplerIndex :: "nat option"

text \<open>
  A program object as \<^verbatim>\<open>_initShaders\<close> returns it: the handle of \<^verbatim>\<open>gl.createProgram()\<close>
  (the identity that \<^verbatim>\<open>===\<close> compares) with the two tables attached to it.
\<close>

record shader_program =
  handle :: nat
  attributes :: "string \<rightharpoonup> attribute"
  uniforms :: "string \<rightharpoonup> uniform"

text \<open>
  The collaborators that are not part of the source, as parameters: the colour resolver
  (\<^verbatim>\<open>this._pInst.color(...)._array\<close>), and the answers of the WebGL implementation about
  the shader sources \<^verbatim>\<open>shader[vertId]\<close>, \<^verbatim>\<open>shader[fragId]\<close>.
\<close>

record collaborators =
  color :: "jsval list \<Rightarrow> real list"
  compile_status :: "shader_stage \<Rightarrow> string \<Rightarrow> bool"
  shader_info_log :: "shader_stage \<Rightarrow> string \<Rightarrow> string"
  link_status :: "string \<Rightarrow> string \<Rightarrow> bool"
  active_attributes :: "string \<Rightarrow> string \<Rightarrow> active_info list"
  active_uniforms :: "string \<Rightarrow> string \<Rightarrow> active_info list"

section \<open>p5.RendererGL\<close>

text \<open>
  The fields of a renderer. \<^verbatim>\<open>_curCamera\<close> is \<^verbatim>\<open>null\<close>, \<^verbatim>\<open>'default'\<close> or \<^verbatim>\<open>'custom'\<close>;
  \<^verbatim>\<open>drawMode\<close> and \<^verbatim>\<open>curShaderId\<close> are undefined until first set; an entry of \<^verbatim>\<open>mHash\<close>
  is absent (\<^verbatim>\<open>undefined\<close>), \<^verbatim>\<open>null\<close> or a program. \<open>alerts\<close> collects the messages shown
  with \<^verbatim>\<open>alert\<close>.
\<close>

record renderer =
  width :: real
  height :: real
  pixelDensity :: real
  GL :: gl_context
  ambientLightCount :: nat
  directionalLightCount :: nat
  pointLightCount :: nat
  curCamera :: "string option"
  uMVMatrix :: nat
  uPMatrix :: nat
  uNMatrix :: nat
  mHash :: "string \<rightharpoonup> shader_program option"
  isImmediateDrawing :: bool
  curFillColor :: "real list"
  curStrokeColor :: "real list"
  pointSize :: real
  curShader :: "shader_program option"
  curShaderId :: "string option"
  newShader :: bool
  drawMode :: "string option"
  alerts :: "string list"

subsection \<open>Construction\<close>

text \<open>\<^verbatim>\<open>_initContext\<close>, on a context that was created: depth test on, viewport set.\<close>

definition initContext :: "real \<Rightarrow> real \<Rightarrow> gl_context" where
  "initContext bw bh =
     \<lparr>drawingBufferWidth = bw, drawingBufferHeight = bh,
      depth_test = True, depth_mask = True, blend = False,
      blend_equation = GL_FUNC_ADD, blend_func = (GL_ONE, GL_ZERO),
      viewport = (0, 0, bw, bh),
      program_in_use = None, next_program = 0,
      compile_log = [], link_log = [], uniform_log = [], textures_created = 0\<rparr>"

text \<open>
  The constructor \<^verbatim>\<open>p5.RendererGL\<close>: the three matrices are new objects; \<open>w\<close>, \<open>h\<close>, \<open>d\<close>
  are the size and pixel density that the base class \<^verbatim>\<open>p5.Renderer\<close> takes from the canvas.
\<close>

definition RendererGL ::
  "'m matrix_lib \<Rightarrow> real \<Rightarrow> real \<Rightarrow> real \<Rightarrow> 'm store \<Rightarrow> renderer \<times> 'm store" where
  "RendererGL lib w h d st =
     (let (mv, st1) = new_matrix (m_identity lib) st;
          (p, st2) = new_matrix (m_identity lib) st1;
          (n, st3) = new_matrix (m_identity3 lib) st2
      in (\<lparr>width = w, height = h, pixelDensity = d,
           GL = initContext (w * d) (h * d),
           ambientLightCount = 0, directionalLightCount = 0, pointLightCount = 0,
           curCamera = None,
           uMVMatrix = mv, uPMatrix = p, uNMatrix = n,
           mHash = Map.empty,
           isImmediateDrawing = False,
           curFillColor = [0.5, 0.5, 0.5, 1.0],
           curStrokeColor = [0.5, 0.5, 0.5, 1.0],
           pointSize = 5.0,
           curShader = None, curShaderId = None, newShader = False,
           drawMode = None, alerts = []\<rparr>, st3))"

subsection \<open>Transforms, push and pop\<close>

definition translate :: "'m matrix_lib \<Rightarrow> real \<Rightarrow> real \<Rightarrow> real \<Rightarrow> renderer \<Rightarrow> 'm store \<Rightarrow> 'm store" where
  "translate lib x y z r st = matrix_update (uMVMatrix r) (m_translate lib [x, - y, z]) st"

definition scale :: "'m matrix_lib \<Rightarrow> real \<Rightarrow> real \<Rightarrow> real \<Rightarrow> renderer \<Rightarrow> 'm store \<Rightarrow> 'm store" where
  "scale lib x y z r st = matrix_update (uMVMatrix r) (m_scale lib [x, y, z]) st"

definition rotate :: "'m matrix_lib \<Rightarrow> real \<Rightarrow> real list \<Rightarrow> renderer \<Rightarrow> 'm store \<Rightarrow> 'm store" where
  "rotate lib rad axis r st = matrix_update (uMVMatrix r) (m_rotate lib rad axis) st"

definition rotateX :: "'m matrix_lib \<Rightarrow> real \<Rightarrow> renderer \<Rightarrow> 'm store \<Rightarrow> 'm store" where
  "rotateX lib rad r st = rotate lib rad [1, 0, 0] r st"

definition rotateY :: "'m matrix_lib \<Rightarrow> real \<Rightarrow> renderer \<Rightarrow> 'm store \<Rightarrow> 'm store" where
  "rotateY lib rad r st = rotate lib rad [0, 1, 0] r st"

definition rotateZ :: "'m matrix_lib \<Rightarrow> real \<Rightarrow> renderer \<Rightarrow> 'm store \<Rightarrow> 'm store" where
  "rotateZ lib rad r st = rotate lib rad [0, 0, 1] r st"

text \<open>A transform call, and a sequence of them made on one renderer.\<close>

datatype transform =
    Translate real real real
  | Scale real real real
  | Rotate real "real list"
  | RotateX real
  | RotateY real
  | RotateZ real

fun transform_call :: "'m matrix_lib \<Rightarrow> renderer \<Rightarrow> transform \<Rightarrow> 'm store \<Rightarrow> 'm store" where
  "transform_call lib r (Translate x y z) st = translate lib x y z r st"
| "transform_call lib r (Scale x y z) st = scale lib x y z r st"
| "transform_call lib r (Rotate rad axis) st = rotate lib rad axis r st"
| "transform_call lib r (RotateX rad) st = rotateX lib rad r st"
| "transform_call lib r (RotateY rad) st = rotateY lib rad r st"
| "transform_call lib r (RotateZ rad) st = rotateZ lib rad r st"

fun transform_calls :: "'m matrix_lib \<Rightarrow> renderer \<Rightarrow> transform list \<Rightarrow> 'm store \<Rightarrow> 'm store" where
  "transform_calls lib r [] st = st"
| "transform_calls lib r (t # ts) st = transform_calls lib r ts (transform_call lib r t st)"

text \<open>\<^verbatim>\<open>push\<close>: \<^verbatim>\<open>uMVMatrixStack.push(this.uMVMatrix.copy())\<close>.\<close>

definition push :: "renderer \<Rightarrow> 'm store \<Rightarrow> 'm store" where
  "push r st =
     (let (c, st1) = matrix_copy (uMVMatrix r) st
      in st1\<lparr>uMVMatrixStack := uMVMatrixStack st1 @ [c]\<rparr>)"

text \<open>\<^verbatim>\<open>pop\<close>: throws on the empty stack, else makes the last saved object the current one.\<close>

definition pop :: "renderer \<Rightarrow> 'm store \<Rightarrow> error + renderer \<times> 'm store" where
  "pop r st =
     (if length (uMVMatrixStack st) = 0 then Inl (Error ''Invalid popMatrix!'')
      else Inr (r\<lparr>uMVMatrix := last (uMVMatrixStack st)\<rparr>,
                st\<lparr>uMVMatrixStack := butlast (uMVMatrixStack st)\<rparr>))"

subsection \<open>Shaders\<close>

definition alert :: "string \<Rightarrow> renderer \<Rightarrow> renderer" where
  "alert msg r = r\<lparr>alerts := alerts r @ [msg]\<rparr>"

text \<open>\<^verbatim>\<open>gl.shaderSource\<close> and \<^verbatim>\<open>gl.compileShader\<close> on the source \<^verbatim>\<open>shader[id]\<close>.\<close>

definition gl_compileShader :: "shader_stage \<Rightarrow> string \<Rightarrow> gl_context \<Rightarrow> gl_context" where
  "gl_compileShader stage shaderId g = g\<lparr>compile_log := compile_log g @ [(stage, shaderId)]\<rparr>"

text \<open>\<^verbatim>\<open>gl.createProgram\<close>, the two \<^verbatim>\<open>attachShader\<close> calls and \<^verbatim>\<open>gl.linkProgram\<close>.\<close>

definition gl_linkProgram :: "gl_context \<Rightarrow> nat \<times> gl_context" where
  "gl_linkProgram g =
     (next_program g,
      g\<lparr>next_program := Suc (next_program g), link_log := link_log g @ [next_program g]\<rparr>)"

text \<open>
  \<^verbatim>\<open>_createEmptyTexture\<close> is not part of the source at hand; it creates the placeholder
  texture, which concerns only the texture objects of the context.
\<close>

definition createEmptyTexture :: "renderer \<Rightarrow> renderer" where
  "createEmptyTexture r = r\<lparr>GL := (GL r)\<lparr>textures_created := Suc (textures_created (GL r))\<rparr>\<rparr>"

text \<open>The loop over the active attributes.\<close>

fun introspect_attributes ::
  "active_info list \<Rightarrow> (string \<rightharpoonup> attribute) \<Rightarrow> (string \<rightharpoonup> attribute)" where
  "introspect_attributes [] tab = tab"
| "introspect_attributes (ai # ais) tab =
     introspect_attributes ais
       (tab(ai_name ai \<mapsto>
          \<lparr>a_name = ai_name ai, a_location = ai_location ai,
           a_type = ai_type ai, a_size = ai_size ai\<rparr>))"

text \<open>
  The name under which a reported uniform is stored: the name of an array uniform (size
  above 1) is cut before its first \<^verbatim>\<open>[0]\<close>.
\<close>

definition uniformName_of :: "active_info \<Rightarrow> string" where
  "uniformName_of ui =
     (if ai_size ui > 1
      then substring0 (ai_name ui) (indexOf (ai_name ui) ''[0]'')
      else ai_name ui)"

text \<open>
  The loop over the active uniforms: each uniform is stored under that name, and each
  sampler takes the next sampler index.
\<close>

fun introspect_uniforms ::
  "active_info list \<Rightarrow> nat \<Rightarrow> (string \<rightharpoonup> uniform) \<Rightarrow> (string \<rightharpoonup> uniform)" where
  "introspect_uniforms [] samplerIdx tab = tab"
| "introspect_uniforms (ui # uis) samplerIdx tab =
     (let u = \<lparr>u_location = ai_location ui, u_size = ai_size ui, u_name = uniformName_of ui,
               u_type = ai_type ui,
               samplerIndex = (if ai_type ui = GL_SAMPLER_2D then Some samplerIdx else None)\<rparr>
      in introspect_uniforms uis
           (if ai_type ui = GL_SAMPLER_2D then samplerIdx + 1 else samplerIdx)
           (tab(uniformName_of ui \<mapsto> u)))"

text \<open>
  \<^verbatim>\<open>_initShaders\<close>: \<^verbatim>\<open>null\<close> (here \<open>None\<close>) after a failed compilation of either stage; a
  failed link is reported with \<^verbatim>\<open>alert\<close> and the function goes on.
\<close>

definition initShaders ::
  "collaborators \<Rightarrow> string \<Rightarrow> string \<Rightarrow> bool \<Rightarrow> renderer \<Rightarrow> shader_program option \<times> renderer" where
  "initShaders env vertId fragId isImmediateMode r =
     (let r1 = r\<lparr>GL := gl_compileShader VERTEX_SHADER vertId (GL r)\<rparr> in
      if \<not> compile_status env VERTEX_SHADER vertId then
        (None, alert (''Yikes! An error occurred compiling the shaders:''
                        @ shader_info_log env VERTEX_SHADER vertId) r1)
      else
        let r2 = r1\<lparr>GL := gl_compileShader FRAGMENT_SHADER fragId (GL r1)\<rparr> in
        if \<not> compile_status env FRAGMENT_SHADER fragId then
          (None, alert (''Darn! An error occurred compiling the shaders:''
                          @ shader_info_log env FRAGMENT_SHADER fragId) r2)
        else
          let (h, g) = gl_linkProgram (GL r2);
              r3 = r2\<lparr>GL := g\<rparr>;
              r4 = (if \<not> link_status env vertId fragId
                    then alert ''Snap! Error linking shader program'' r3 else r3);
              attrs = introspect_attributes (active_attributes env vertId fragId) Map.empty;
              r5 = createEmptyTexture r4;
              unis = introspect_uniforms (active_uniforms env vertId fragId) 0 Map.empty
          in (Some \<lparr>handle = h, attributes = attrs, uniforms = unis\<rparr>, r5))"

text \<open>\<^verbatim>\<open>_useShader\<close>: \<^verbatim>\<open>===\<close> on two programs compares the objects, that is the handles.\<close>

definition useShader :: "shader_program option \<Rightarrow> renderer \<Rightarrow> renderer" where
  "useShader shaderProgram r =
     (if map_option handle shaderProgram = map_option handle (curShader r) then r
      else r\<lparr>GL := (GL r)\<lparr>program_in_use := map_option handle shaderProgram\<rparr>,
             curShader := shaderProgram\<rparr>)"

text \<open>The \<^verbatim>\<open>switch\<close> of \<^verbatim>\<open>_setUniform\<close> on the type of the uniform.\<close>

definition uniform_calls :: "uniform \<Rightarrow> jsval \<Rightarrow> gl_call list" where
  "uniform_calls u data =
     (let location = u_location u in
      case u_type u of
        GL_BOOL \<Rightarrow> (if data = Bool True then [Uniform1i location (Num 1)]
                    else [Uniform1i location (Num 0)])
      | GL_INT \<Rightarrow> [Uniform1i location data]
      | GL_FLOAT \<Rightarrow> (if u_size u > 1 then [Uniform1fv location data]
                     else [Uniform1f location data])
      | GL_FLOAT_MAT3 \<Rightarrow> [UniformMatrix3fv location data]
      | GL_FLOAT_MAT4 \<Rightarrow> [UniformMatrix4fv location data]
      | GL_FLOAT_VEC2 \<Rightarrow> (if u_size u > 1 then [Uniform2fv location data]
                          else [Uniform2f location (js_elem data 0) (js_elem data 1)])
      | GL_FLOAT_VEC3 \<Rightarrow> (if u_size u > 1 then [Uniform3fv location data]
                          else [Uniform3f location (js_elem data 0) (js_elem data 1)
                                  (js_elem data 2)])
      | GL_FLOAT_VEC4 \<Rightarrow> (if u_size u > 1 then [Uniform4fv location data]
                          else [Uniform4f location (js_elem data 0) (js_elem data 1)
                                  (js_elem data 2) (js_elem data 3)])
      | GL_SAMPLER_2D \<Rightarrow>
          (case samplerIndex u of
             Some i \<Rightarrow> [ActiveTexture i, BindTexture data, Uniform1i location (Num (real i))]
           | None \<Rightarrow> [BindTexture data, Uniform1i location Undefined])
      | GL_OTHER \<Rightarrow> [])"

text \<open>
  \<^verbatim>\<open>_setUniform\<close>: silently nothing without a current shader, or when the table of the
  current shader has no entry under the name.
\<close>

definition setUniform :: "string \<Rightarrow> jsval \<Rightarrow> renderer \<Rightarrow> renderer" where
  "setUniform uniformName data r =
     (case curShader r of
        None \<Rightarrow> r
      | Some shaderProgram \<Rightarrow>
          (case uniforms shaderProgram uniformName of
             None \<Rightarrow> r
           | Some u \<Rightarrow>
               r\<lparr>GL := (GL r)\<lparr>uniform_log := uniform_log (GL r) @ uniform_calls u data\<rparr>\<rparr>))"

text \<open>
  The calls that \<^verbatim>\<open>_setUniform\<close> issues for a name and data while a given program is
  current: none when the table of the program has no entry under the name.
\<close>

definition program_writes :: "shader_program \<Rightarrow> string \<Rightarrow> jsval \<Rightarrow> gl_call list" where
  "program_writes p uniformName data =
     (case uniforms p uniformName of None \<Rightarrow> [] | Some u \<Rightarrow> uniform_calls u data)"

definition materialInHash :: "renderer \<Rightarrow> string \<Rightarrow> bool" where
  "materialInHash r mId = (mHash r mId \<noteq> None)"

text \<open>
  \<^verbatim>\<open>_getShader\<close>. The value returned is \<^verbatim>\<open>this.mHash[this.curShaderId]\<close>, an entry that is
  present at that point; \<open>None\<close> is \<^verbatim>\<open>null\<close>.
\<close>

definition getShader ::
  "collaborators \<Rightarrow> string \<Rightarrow> string \<Rightarrow> bool \<Rightarrow> renderer \<Rightarrow> shader_program option \<times> renderer" where
  "getShader env vertId fragId isImmediateMode r =
     (let mId = vertId @ ''|'' @ fragId;
          r1 = (if \<not> materialInHash r mId then
                  (let (shaderProgram, r') = initShaders env vertId fragId isImmediateMode r
                   in r'\<lparr>mHash := (mHash r')(mId \<mapsto> shaderProgram), newShader := True\<rparr>)
                else r);
          r2 = r1\<lparr>curShaderId := Some mId\<rparr>
      in (case mHash r2 mId of None \<Rightarrow> None | Some entry \<Rightarrow> entry, r2))"

text \<open>A sequence of lookups, each for its own pair of ids.\<close>

fun getShader_calls :: "collaborators \<Rightarrow> (string \<times> string \<times> bool) list \<Rightarrow> renderer \<Rightarrow> renderer" where
  "getShader_calls env [] r = r"
| "getShader_calls env ((vertId, fragId, isImmediateMode) # calls) r =
     getShader_calls env calls (snd (getShader env vertId fragId isImmediateMode r))"

subsection \<open>Colour\<close>

text \<open>\<^verbatim>\<open>_applyColorBlend\<close>: \<^verbatim>\<open>colors[colors.length-1] < 1.0\<close> is false on an empty array.\<close>

definition applyColorBlend :: "collaborators \<Rightarrow> jsval list \<Rightarrow> renderer \<Rightarrow> real list \<times> renderer" where
  "applyColorBlend env args r =
     (let colors = color env args in
      if colors \<noteq> [] \<and> last colors < 1.0 then
        (colors, r\<lparr>GL := (GL r)\<lparr>depth_mask := False, blend := True,
                                 blend_equation := GL_FUNC_ADD,
                                 blend_func := (GL_SRC_ALPHA, GL_ONE_MINUS_SRC_ALPHA)\<rparr>\<rparr>)
      else
        (colors, r\<lparr>GL := (GL r)\<lparr>depth_mask := True, blend := False\<rparr>\<rparr>))"

definition fill :: "collaborators \<Rightarrow> jsval list \<Rightarrow> renderer \<Rightarrow> renderer" where
  "fill env args r =
     (let (colors, r1) = applyColorBlend env args r;
          r2 = r1\<lparr>curFillColor := colors, drawMode := Some ''fill''\<rparr>
      in if isImmediateDrawing r2 then
           (let (shaderProgram, r3) = getShader env ''immediateVert'' ''vertexColorFrag'' False r2
            in useShader shaderProgram r3)
         else
           (let (shaderProgram, r3) = getShader env ''normalVert'' ''basicFrag'' False r2;
                r4 = useShader shaderProgram r3
            in setUniform ''uMaterialColor'' (Arr (map Num colors)) r4))"

subsection \<open>Material colour\<close>






subsection \<open>Render pass and lights\<close>

text \<open>\<^verbatim>\<open>_update\<close>: a new identity model-view matrix, moved back, and the light counters at 0.\<close>

definition update :: "'m matrix_lib \<Rightarrow> renderer \<Rightarrow> 'm store \<Rightarrow> renderer \<times> 'm store" where
  "update lib r st =
     (let (mv, st1) = new_matrix (m_identity lib) st;
          r1 = r\<lparr>uMVMatrix := mv\<rparr>;
          st2 = translate lib 0 0 (- (height r1 / 2) / tan (pi * 30 / 180)) r1 st1
      in (r1\<lparr>ambientLightCount := 0, directionalLightCount := 0, pointLightCount := 0\<rparr>, st2))"

definition ambientLight :: "collaborators \<Rightarrow> jsval list \<Rightarrow> renderer \<Rightarrow> renderer" where
  "ambientLight env args r =
     (let (shaderProgram, r1) = getShader env ''lightVert'' ''lightTextureFrag'' False r;
          r2 = useShader shaderProgram r1;
          colors = Arr (map Num (take 3 (color env args)));
          r3 = setUniform ''uAmbientColor[0]'' colors r2;
          r4 = setUniform ''uMaterialColor'' (Arr [Num 1, Num 1, Num 1, Num 1]) r3;
          r5 = r4\<lparr>ambientLightCount := ambientLightCount r4 + 1\<rparr>;
          r6 = setUniform ''uAmbientLightCount'' (Num (real (ambientLightCount r5))) r5
      in setUniform ''uUseLighting'' (Bool True) r6)"

text \<open>
  The direction or position of \<^verbatim>\<open>directionalLight\<close> and \<^verbatim>\<open>pointLight\<close>, which both
  functions compute by the same lines: the last three arguments when the last one is a
  number, else the \<^verbatim>\<open>x\<close>, \<^verbatim>\<open>y\<close>, \<^verbatim>\<open>z\<close> properties of the last argument; the
  \<^verbatim>\<open>catch\<close> throws the error again. A light function that throws there has already
  looked up the light shader, made it current and sent the colour: its result \<open>Inl\<close>
  carries the error together with the renderer as it is at the throw.
\<close>

definition trailing_xyz :: "jsval list \<Rightarrow> error + jsval list" where
  "trailing_xyz args =
     (let n = int (length args) in
      if typeof (js_at args (n - 1)) = ''number'' then
        Inr [js_at args (n - 3), js_at args (n - 2), js_at args (n - 1)]
      else
        (case js_get (js_at args (n - 1)) ''x'' of
           Inl e \<Rightarrow> Inl e
         | Inr x \<Rightarrow>
             (case js_get (js_at args (n - 1)) ''y'' of
                Inl e \<Rightarrow> Inl e
              | Inr y \<Rightarrow>
                  (case js_get (js_at args (n - 1)) ''z'' of
                     Inl e \<Rightarrow> Inl e
                   | Inr z \<Rightarrow> Inr [x, y, z]))))"

definition directionalLight ::
  "collaborators \<Rightarrow> jsval list \<Rightarrow> renderer \<Rightarrow> error \<times> renderer + renderer" where
  "directionalLight env args r =
     (let (shaderProgram, r1) = getShader env ''lightVert'' ''lightTextureFrag'' False r;
          r2 = useShader shaderProgram r1;
          colors = Arr (map Num (take 3 (color env [js_at args 0, js_at args 1, js_at args 2])));
          r3 = setUniform ''uDirectionalColor[0]'' colors r2
      in case trailing_xyz args of
           Inl e \<Rightarrow> Inl (e, r3)
         | Inr xyz \<Rightarrow>
             (let r4 = setUniform ''uMaterialColor'' (Arr [Num 1, Num 1, Num 1, Num 1]) r3;
                  r5 = setUniform ''uLightingDirection[0]'' (Arr xyz) r4;
                  r6 = r5\<lparr>directionalLightCount := directionalLightCount r5 + 1\<rparr>;
                  r7 = setUniform ''uDirectionalLightCount''
                         (Num (real (directionalLightCount r6))) r6
              in Inr (setUniform ''uUseLighting'' (Bool True) r7)))"

definition pointLight ::
  "collaborators \<Rightarrow> jsval list \<Rightarrow> renderer \<Rightarrow> error \<times> renderer + renderer" where
  "pointLight env args r =
     (let (shaderProgram, r1) = getShader env ''lightVert'' ''lightTextureFrag'' False r;
          r2 = useShader shaderProgram r1;
          colors = Arr (map Num (take 3 (color env [js_at args 0, js_at args 1, js_at args 2])));
          r3 = setUniform ''uPointLightColor[0]'' colors r2
      in case trailing_xyz args of
           Inl e \<Rightarrow> Inl (e, r3)
         | Inr xyz \<Rightarrow>
             (let r4 = setUniform ''uMaterialColor'' (Arr [Num 1, Num 1, Num 1, Num 1]) r3;
                  r5 = setUniform ''uPointLightLocation[0]'' (Arr xyz) r4;
                  r6 = r5\<lparr>pointLightCount := pointLightCount r5 + 1\<rparr>;
                  r7 = setUniform ''uPointLightCount'' (Num (real (pointLightCount r6))) r6
              in Inr (setUniform ''uUseLighting'' (Bool True) r7)))"

subsection \<open>Camera and resize\<close>

text \<open>\<^verbatim>\<open>_setDefaultCamera\<close>: acts only while \<^verbatim>\<open>_curCamera\<close> is \<^verbatim>\<open>null\<close>.\<close>

definition setDefaultCamera :: "'m matrix_lib \<Rightarrow> renderer \<Rightarrow> 'm store \<Rightarrow> renderer \<times> 'm store" where
  "setDefaultCamera lib r st =
     (if curCamera r = None then
        (let w = width r; h = height r;
             (p, st1) = new_matrix (m_identity lib) st;
             r1 = r\<lparr>uPMatrix := p\<rparr>;
             cameraZ = (height r1 / 2) / tan (pi * 30 / 180);
             st2 = matrix_update (uPMatrix r1)
                     (m_perspective lib (60 / 180 * pi) (w / h) (cameraZ * 0.1) (cameraZ * 10)) st1
         in (r1\<lparr>curCamera := Some ''default''\<rparr>, st2))
      else (r, st))"

text \<open>
  Modelled from the spec: \<^verbatim>\<open>p5.Renderer.prototype.resize\<close> (the base class is not in the
  source) updates the dimensions: the width and height of the renderer, and with them the
  size of the drawing buffer, which is scaled by the pixel density.
\<close>

definition Renderer_resize :: "real \<Rightarrow> real \<Rightarrow> renderer \<Rightarrow> renderer" where
  "Renderer_resize w h r =
     r\<lparr>width := w, height := h,
       GL := (GL r)\<lparr>drawingBufferWidth := w * pixelDensity r,
                    drawingBufferHeight := h * pixelDensity r\<rparr>\<rparr>"

definition resize :: "'m matrix_lib \<Rightarrow> real \<Rightarrow> real \<Rightarrow> renderer \<Rightarrow> 'm store \<Rightarrow> renderer \<times> 'm store" where
  "resize lib w h r st =
     (let r1 = Renderer_resize w h r;
          r2 = r1\<lparr>GL := (GL r1)\<lparr>viewport :=
                   (0, 0, drawingBufferWidth (GL r1), drawingBufferHeight (GL r1))\<rparr>\<rparr>
      in if curCamera r2 = Some ''default''
         then setDefaultCamera lib (r2\<lparr>curCamera := None\<rparr>) st
         else (r2, st))"

text \<open>
  \<^verbatim>\<open>perspective\<close> and \<^verbatim>\<open>ortho\<close> are methods of the sketch, whose \<^verbatim>\<open>width\<close> and
  \<^verbatim>\<open>height\<close> are the arguments \<open>pw\<close>, \<open>ph\<close> here; an argument left out is \<open>None\<close>.
  \<^verbatim>\<open>this.PI\<close> and \<^verbatim>\<open>this.tan\<close> are taken in radians.
\<close>

definition perspective ::
  "'m matrix_lib \<Rightarrow> real \<Rightarrow> real \<Rightarrow> real option \<Rightarrow> real option \<Rightarrow> real option \<Rightarrow> real option
     \<Rightarrow> renderer \<Rightarrow> 'm store \<Rightarrow> renderer \<times> 'm store" where
  "perspective lib pw ph fovy aspect near far r st =
     (let fovy' = js_or fovy (60 / 180 * pi);
          aspect' = js_or aspect (pw / ph);
          near' = js_or near ((ph / 2.0) / tan (fovy' / 2.0) * 0.1);
          far' = js_or far ((ph / 2.0) / tan (fovy' / 2.0) * 10);
          (p, st1) = new_matrix (m_identity lib) st;
          r1 = r\<lparr>uPMatrix := p\<rparr>;
          st2 = matrix_update (uPMatrix r1) (m_perspective lib fovy' aspect' near' far') st1
      in (r1\<lparr>curCamera := Some ''custom''\<rparr>, st2))"

definition ortho ::
  "'m matrix_lib \<Rightarrow> real \<Rightarrow> real \<Rightarrow> real option \<Rightarrow> real option \<Rightarrow> real option \<Rightarrow> real option
     \<Rightarrow> real option \<Rightarrow> real option \<Rightarrow> renderer \<Rightarrow> 'm store \<Rightarrow> renderer \<times> 'm store" where
  "ortho lib pw ph left right bottom topp near far r st =
     (let left' = js_or left (- pw / 2);
          right' = js_or right (pw / 2);
          bottom' = js_or bottom (- ph / 2);
          top' = js_or topp (ph / 2);
          near' = js_or near 0;
          far' = js_or far (max pw ph);
          (p, st1) = new_matrix (m_identity lib) st;
          r1 = r\<lparr>uPMatrix := p\<rparr>;
          st2 = matrix_update (uPMatrix r1)
                  (m_ortho lib left' right' bottom' top' near' far') st1
      in (r1\<lparr>curCamera := Some ''custom''\<rparr>, st2))"

section \<open>Reading pixels of the 2D canvas\<close>

text \<open>
  The sketch as \<^verbatim>\<open>get\<close> sees it: its size, its pixel density, and the bytes that
  \<^verbatim>\<open>this.drawingContext.getImageData(x, y, w, h).data\<close> holds.
\<close>

record sketch =
  sketch_width :: real
  sketch_height :: real
  sketch_pixelDensity :: real
  getImageData :: "real \<Rightarrow> real \<Rightarrow> real \<Rightarrow> real \<Rightarrow> nat list"

text \<open>What \<^verbatim>\<open>get\<close> returns: an array, or a \<^verbatim>\<open>p5.Image\<close> drawn from a region of the canvas.\<close>

datatype get_result =
    Pixels "jsval list"
  | Region "real option" "real option" "real option" "real option" "real option" "real option"

definition byte_at :: "nat list \<Rightarrow> nat \<Rightarrow> jsval" where
  "byte_at data i = (if i < length data then Num (real (data ! i)) else Undefined)"

text \<open>The loop that copies the image data, four bytes at a time.\<close>

function copy_pixels :: "nat list \<Rightarrow> nat \<Rightarrow> jsval list \<Rightarrow> jsval list" where
  "copy_pixels data i pixels =
     (if i < length data
      then copy_pixels data (i + 4)
             (pixels @ [byte_at data i, byte_at data (i + 1), byte_at data (i + 2),
                        byte_at data (i + 3)])
      else pixels)"
  by pat_completeness auto
termination
  by (relation "measure (\<lambda>(data, i, pixels). length data - i)") auto

text \<open>A comparison with \<^verbatim>\<open>undefined\<close> is false.\<close>

definition js_gt :: "real option \<Rightarrow> real \<Rightarrow> bool" where
  "js_gt a b = (case a of None \<Rightarrow> False | Some v \<Rightarrow> v > b)"

definition js_lt :: "real option \<Rightarrow> real \<Rightarrow> bool" where
  "js_lt a b = (case a of None \<Rightarrow> False | Some v \<Rightarrow> v < b)"

text \<open>An argument of \<^verbatim>\<open>getImageData\<close>; the canvas API converts \<^verbatim>\<open>undefined\<close> to 0.\<close>

definition to_number :: "real option \<Rightarrow> real" where
  "to_number a = (case a of None \<Rightarrow> 0 | Some v \<Rightarrow> v)"

text \<open>
  Arithmetic on an argument that may be \<^verbatim>\<open>undefined\<close>: \<^verbatim>\<open>undefined * d\<close> and
  \<^verbatim>\<open>Math.min(undefined, b)\<close> are NaN, and so is what is computed from them; \<open>None\<close> is
  NaN in these results.
\<close>

definition js_times :: "real option \<Rightarrow> real \<Rightarrow> real option" where
  "js_times a b = (case a of None \<Rightarrow> None | Some v \<Rightarrow> Some (v * b))"

definition js_min :: "real option \<Rightarrow> real \<Rightarrow> real option" where
  "js_min a b = (case a of None \<Rightarrow> None | Some v \<Rightarrow> Some (min v b))"

definition get ::
  "sketch \<Rightarrow> real option \<Rightarrow> real option \<Rightarrow> real option \<Rightarrow> real option \<Rightarrow> get_result" where
  "get p x0 y0 w0 h0 =
     (let (x, y, w, h) =
            (if x0 = None \<and> y0 = None \<and> w0 = None \<and> h0 = None
             then (Some 0, Some 0, Some (sketch_width p), Some (sketch_height p))
             else if w0 = None \<and> h0 = None then (x0, y0, Some 1, Some 1)
             else (x0, y0, w0, h0))
      in if js_gt x (sketch_width p) \<or> js_gt y (sketch_height p) \<or> js_lt x 0 \<or> js_lt y 0
         then Pixels [Num 0, Num 0, Num 0, Num 255]
         else if w = Some 1 \<and> h = Some 1
         then Pixels (copy_pixels
                        (getImageData p (to_number x) (to_number y) (to_number w) (to_number h))
                        0 [])
         else
           (let sx = js_times x (sketch_pixelDensity p);
                sy = js_times y (sketch_pixelDensity p);
                dw = js_min w (sketch_width p);
                dh = js_min h (sketch_height p);
                sw = js_times dw (sketch_pixelDensity p);
                sh = js_times dh (sketch_pixelDensity p)
            in Region sx sy sw sh dw dh))"

section \<open>Concrete collaborators\<close>

text \<open>
  A matrix library that keeps every operation as a term, so that two matrices are equal
  only if they were built by the same calls; used to run the renderer on concrete inputs.
\<close>

datatype mat =
    Identity
  | Identity3
  | Translated "real list" mat
  | Scaled "real list" mat
  | Rotated real "real list" mat
  | Perspective real real real real mat
  | Ortho real real real real real real mat

definition term_lib :: "mat matrix_lib" where
  "term_lib =
     \<lparr>m_identity = Identity, m_identity3 = Identity3,
      m_translate = Translated, m_scale = Scaled, m_rotate = Rotated,
      m_perspective = Perspective, m_ortho = Ortho\<rparr>"

definition empty_store :: "mat store" where
  "empty_store = \<lparr>uMVMatrixStack = [], matrix_of = (\<lambda>a. Identity), next_ref = 0\<rparr>"

text \<open>A renderer on a canvas of 100 by 100 pixels, as the constructor leaves it.\<close>

definition sample_renderer :: renderer where
  "sample_renderer = fst (RendererGL term_lib 100 100 1 empty_store)"

definition sample_store :: "mat store" where
  "sample_store = snd (RendererGL term_lib 100 100 1 empty_store)"

text \<open>
  Modelled from the spec: the colour resolver (\<^verbatim>\<open>p5.Color\<close> is not in the source) takes a
  gray value or three channel values, each with or without alpha, a packed array of
  these, a colour object or a CSS-like string, and returns four floats in [0,1]. The
  channels range over 0..255 here and alpha is 1 when it is not given; a colour object
  holds its four floats in its \<^verbatim>\<open>_array\<close> field; a string is read by \<open>css\<close>, a parameter,
  as the spec gives no grammar for it. Of other arguments the spec says nothing; they
  resolve to opaque white here.
\<close>

fun numeric_prefix :: "jsval list \<Rightarrow> real list" where
  "numeric_prefix (Num n # vs) = n # numeric_prefix vs"
| "numeric_prefix vs = []"

definition channels255 :: "real list \<Rightarrow> real list" where
  "channels255 ns =
     (case ns of
        [g] \<Rightarrow> [g / 255, g / 255, g / 255, 1]
      | [g, a] \<Rightarrow> [g / 255, g / 255, g / 255, a / 255]
      | [v1, v2, v3] \<Rightarrow> [v1 / 255, v2 / 255, v3 / 255, 1]
      | [v1, v2, v3, a] \<Rightarrow> [v1 / 255, v2 / 255, v3 / 255, a / 255]
      | _ \<Rightarrow> [1, 1, 1, 1])"

fun rgb255_color :: "(string \<Rightarrow> real list) \<Rightarrow> jsval list \<Rightarrow> real list" where
  "rgb255_color css (Str s # rest) = css s"
| "rgb255_color css (Obj fs # rest) =
     (case map_of fs ''_array'' of Some (Arr vs) \<Rightarrow> numeric_prefix vs | _ \<Rightarrow> [1, 1, 1, 1])"
| "rgb255_color css (Arr vs # rest) = channels255 (numeric_prefix vs)"
| "rgb255_color css args = channels255 (numeric_prefix args)"

text \<open>
  A reader of colour strings for the sample environment: the notation \<^verbatim>\<open>#rrggbb\<close> with
  hexadecimal digits; it reads every other string as opaque black.
\<close>

definition hex_digit :: "char \<Rightarrow> nat" where
  "hex_digit c =
     (let n = (of_char c :: nat) in
      if 48 \<le> n \<and> n \<le> 57 then n - 48
      else if 97 \<le> n \<and> n \<le> 102 then n - 87
      else if 65 \<le> n \<and> n \<le> 70 then n - 55
      else 0)"

definition css_hex :: "string \<Rightarrow> real list" where
  "css_hex s =
     (case s of
        [h, r1, r2, g1, g2, b1, b2] \<Rightarrow>
          (if h = CHR ''#''
           then [real (16 * hex_digit r1 + hex_digit r2) / 255,
                 real (16 * hex_digit g1 + hex_digit g2) / 255,
                 real (16 * hex_digit b1 + hex_digit b2) / 255, 1]
           else [0, 0, 0, 1])
      | _ \<Rightarrow> [0, 0, 0, 1])"

text \<open>
  The uniforms that a WebGL implementation reports for a light shader whose light arrays
  have eight slots each: an array is reported once, under the name of its first element
  and with its size.
\<close>

definition light_uniforms :: "active_info list" where
  "light_uniforms =
     [\<lparr>ai_name = ''uAmbientColor[0]'', ai_type = GL_FLOAT_VEC3, ai_size = 8, ai_location = 0\<rparr>,
      \<lparr>ai_name = ''uAmbientLightCount'', ai_type = GL_INT, ai_size = 1, ai_location = 8\<rparr>,
      \<lparr>ai_name = ''uDirectionalColor[0]'', ai_type = GL_FLOAT_VEC3, ai_size = 8, ai_location = 9\<rparr>,
      \<lparr>ai_name = ''uLightingDirection[0]'', ai_type = GL_FLOAT_VEC3, ai_size = 8, ai_location = 17\<rparr>,
      \<lparr>ai_name = ''uDirectionalLightCount'', ai_type = GL_INT, ai_size = 1, ai_location = 25\<rparr>,
      \<lparr>ai_name = ''uPointLightColor[0]'', ai_type = GL_FLOAT_VEC3, ai_size = 8, ai_location = 26\<rparr>,
      \<lparr>ai_name = ''uPointLightLocation[0]'', ai_type = GL_FLOAT_VEC3, ai_size = 8, ai_location = 34\<rparr>,
      \<lparr>ai_name = ''uPointLightCount'', ai_type = GL_INT, ai_size = 1, ai_location = 42\<rparr>,
      \<lparr>ai_name = ''uMaterialColor'', ai_type = GL_FLOAT_VEC4, ai_size = 1, ai_location = 43\<rparr>,
      \<lparr>ai_name = ''uUseLighting'', ai_type = GL_BOOL, ai_size = 1, ai_location = 44\<rparr>]"

definition basic_uniforms :: "active_info list" where
  "basic_uniforms =
     [\<lparr>ai_name = ''uMaterialColor'', ai_type = GL_FLOAT_VEC4, ai_size = 1, ai_location = 0\<rparr>]"

definition position_attribute :: "active_info list" where
  "position_attribute =
     [\<lparr>ai_name = ''aPosition'', ai_type = GL_FLOAT_VEC3, ai_size = 1, ai_location = 0\<rparr>]"

text \<open>An implementation on which every shader compiles and links.\<close>

definition sample_env :: collaborators where
  "sample_env =
     \<lparr>color = rgb255_color css_hex,
      compile_status = (\<lambda>stage shaderId. True),
      shader_info_log = (\<lambda>stage shaderId. []),
      link_status = (\<lambda>vertId fragId. True),
      active_attributes = (\<lambda>vertId fragId. position_attribute),
      active_uniforms = (\<lambda>vertId fragId.
         if vertId = ''lightVert'' \<and> fragId = ''lightTextureFrag''
         then light_uniforms else basic_uniforms)\<rparr>"

text \<open>An implementation on which no vertex shader compiles.\<close>

definition failing_env :: collaborators where
  "failing_env =
     sample_env\<lparr>compile_status := (\<lambda>stage shaderId. stage \<noteq> VERTEX_SHADER),
                shader_info_log := (\<lambda>stage shaderId. ''ERROR: 0:1: syntax error'')\<rparr>"

text \<open>
  A canvas of 100 by 100 pixels on which nothing was drawn: every pixel that
  \<^verbatim>\<open>getImageData\<close> reads is transparent black, inside the canvas and outside of it.
\<close>

definition transparent_black :: "real \<Rightarrow> real \<Rightarrow> nat list" where
  "transparent_black w h = concat (replicate (nat \<lfloor>w * h\<rfloor>) [0, 0, 0, 0])"

definition blank_canvas :: sketch where
  "blank_canvas =
     \<lparr>sketch_width = 100, sketch_height = 100, sketch_pixelDensity = 1,
      getImageData = (\<lambda>x y w h. transparent_black w h)\<rparr>"

text \<open>A render pass with two ambient lights: \<^verbatim>\<open>_update(); ambientLight(100); ambientLight(200)\<close>.\<close>

definition two_ambient_lights :: renderer where
  "two_ambient_lights =
     ambientLight sample_env [Num 200]
       (ambientLight sample_env [Num 100] (fst (update term_lib sample_renderer sample_store)))"

section \<open>Matrix stack: properties\<close>

lemma transform_call_store:
  "\<exists>m. transform_call lib r t st = st\<lparr>matrix_of := (matrix_of st)(uMVMatrix r := m)\<rparr>"
  by (cases t)
     (auto simp add: translate_def scale_def rotate_def rotateX_def rotateY_def rotateZ_def
        matrix_update_def)

lemma transform_calls_store:
  "\<exists>m. transform_calls lib r ts st = st\<lparr>matrix_of := (matrix_of st)(uMVMatrix r := m)\<rparr>"
proof (induction ts arbitrary: st)
  case Nil
  have "st = st\<lparr>matrix_of := (matrix_of st)(uMVMatrix r := matrix_of st (uMVMatrix r))\<rparr>"
    by simp
  then show ?case by (metis transform_calls.simps(1))
next
  case (Cons t ts)
  from transform_call_store [of lib r t st]
  obtain m1 where s1: "transform_call lib r t st = st\<lparr>matrix_of := (matrix_of st)(uMVMatrix r := m1)\<rparr>"
    by (rule exE)
  from Cons.IH [of "transform_call lib r t st"]
  obtain m2 where s2: "transform_calls lib r ts (transform_call lib r t st) =
      (transform_call lib r t st)\<lparr>matrix_of :=
         (matrix_of (transform_call lib r t st))(uMVMatrix r := m2)\<rparr>"
    by (rule exE)
  have "transform_calls lib r (t # ts) st = st\<lparr>matrix_of := (matrix_of st)(uMVMatrix r := m2)\<rparr>"
    by (simp add: s2) (simp add: s1)
  then show ?case by blast
qed

lemma transform_calls_stack:
  "uMVMatrixStack (transform_calls lib r ts st) = uMVMatrixStack st"
proof -
  from transform_calls_store [of lib r ts st]
  obtain m where "transform_calls lib r ts st = st\<lparr>matrix_of := (matrix_of st)(uMVMatrix r := m)\<rparr>"
    by (rule exE)
  then show ?thesis by simp
qed

lemma transform_calls_next_ref:
  "next_ref (transform_calls lib r ts st) = next_ref st"
proof -
  from transform_calls_store [of lib r ts st]
  obtain m where "transform_calls lib r ts st = st\<lparr>matrix_of := (matrix_of st)(uMVMatrix r := m)\<rparr>"
    by (rule exE)
  then show ?thesis by simp
qed

lemma transform_calls_other:
  assumes "a \<noteq> uMVMatrix r"
  shows "matrix_of (transform_calls lib r ts st) a = matrix_of st a"
proof -
  from transform_calls_store [of lib r ts st]
  obtain m where "transform_calls lib r ts st = st\<lparr>matrix_of := (matrix_of st)(uMVMatrix r := m)\<rparr>"
    by (rule exE)
  then show ?thesis using assms by simp
qed

lemma push_stack: "uMVMatrixStack (push r st) = uMVMatrixStack st @ [next_ref st]"
  by (simp add: push_def matrix_copy_def new_matrix_def)

lemma push_matrix_of:
  "matrix_of (push r st) = (matrix_of st)(next_ref st := matrix_of st (uMVMatrix r))"
  by (simp add: push_def matrix_copy_def new_matrix_def)

text \<open>
  C3. On an empty matrix stack \<^verbatim>\<open>pop()\<close> always throws (the source's
  \<^verbatim>\<open>Error('Invalid popMatrix!')\<close> is the stack-underflow error of the specification): it
  never returns, and so never yields a renderer whose model-view matrix was reset.
\<close>

theorem pop_empty_raises:
  assumes "uMVMatrixStack st = []"
  shows "pop r st = Inl (Error ''Invalid popMatrix!'')"
  using assms by (simp add: pop_def)

theorem pop_empty_raises_witness:
  "uMVMatrixStack empty_store = []
   \<and> pop (fst (RendererGL term_lib 100 100 1 empty_store))
         (snd (RendererGL term_lib 100 100 1 empty_store))
     = Inl (Error ''Invalid popMatrix!'')"
proof -
  have e: "uMVMatrixStack (snd (RendererGL term_lib 100 100 1 empty_store)) = []"
    by (simp add: RendererGL_def new_matrix_def empty_store_def Let_def)
  show ?thesis
    using pop_empty_raises [OF e] by (simp add: empty_store_def)
qed

section \<open>Shader cache: properties\<close>

lemma initShaders_vertex_fails:
  assumes "\<not> compile_status env VERTEX_SHADER vertId"
  shows "initShaders env vertId fragId imm r =
           (None, r\<lparr>GL := (GL r)\<lparr>compile_log := compile_log (GL r) @ [(VERTEX_SHADER, vertId)]\<rparr>,
                    alerts := alerts r @ [''Yikes! An error occurred compiling the shaders:''
                                           @ shader_info_log env VERTEX_SHADER vertId]\<rparr>)"
  using assms by (simp add: initShaders_def gl_compileShader_def alert_def)

lemma initShaders_fragment_fails:
  assumes "compile_status env VERTEX_SHADER vertId"
      and "\<not> compile_status env FRAGMENT_SHADER fragId"
  shows "initShaders env vertId fragId imm r =
           (None, r\<lparr>GL := (GL r)\<lparr>compile_log := compile_log (GL r)
                                      @ [(VERTEX_SHADER, vertId), (FRAGMENT_SHADER, fragId)]\<rparr>,
                    alerts := alerts r @ [''Darn! An error occurred compiling the shaders:''
                                           @ shader_info_log env FRAGMENT_SHADER fragId]\<rparr>)"
  using assms by (simp add: initShaders_def gl_compileShader_def alert_def)

lemma initShaders_compiles:
  assumes "compile_status env VERTEX_SHADER vertId"
      and "compile_status env FRAGMENT_SHADER fragId"
  shows "initShaders env vertId fragId imm r =
           (Some \<lparr>handle = next_program (GL r),
                  attributes = introspect_attributes (active_attributes env vertId fragId) Map.empty,
                  uniforms = introspect_uniforms (active_uniforms env vertId fragId) 0 Map.empty\<rparr>,
            r\<lparr>GL := (GL r)\<lparr>compile_log := compile_log (GL r)
                               @ [(VERTEX_SHADER, vertId), (FRAGMENT_SHADER, fragId)],
                            next_program := Suc (next_program (GL r)),
                            link_log := link_log (GL r) @ [next_program (GL r)],
                            textures_created := Suc (textures_created (GL r))\<rparr>,
              alerts := alerts r @ (if link_status env vertId fragId then []
                                    else [''Snap! Error linking shader program''])\<rparr>)"
  using assms
  by (simp add: initShaders_def gl_compileShader_def gl_linkProgram_def alert_def
      createEmptyTexture_def)

lemma getShader_hit:
  assumes "mHash r (vertId @ ''|'' @ fragId) = Some entry"
  shows "getShader env vertId fragId imm r = (entry, r\<lparr>curShaderId := Some (vertId @ ''|'' @ fragId)\<rparr>)"
  using assms by (simp add: getShader_def materialInHash_def)

lemma getShader_miss:
  assumes "mHash r (vertId @ ''|'' @ fragId) = None"
  shows "getShader env vertId fragId imm r =
           (fst (initShaders env vertId fragId imm r),
            (snd (initShaders env vertId fragId imm r))
              \<lparr>mHash := (mHash (snd (initShaders env vertId fragId imm r)))
                           (vertId @ ''|'' @ fragId \<mapsto> fst (initShaders env vertId fragId imm r)),
               newShader := True,
               curShaderId := Some (vertId @ ''|'' @ fragId)\<rparr>)"
  using assms by (simp add: getShader_def materialInHash_def Let_def split: prod.splits)

lemma initShaders_mHash: "mHash (snd (initShaders env vertId fragId imm r)) = mHash r"
  by (simp add: initShaders_def gl_compileShader_def gl_linkProgram_def alert_def
      createEmptyTexture_def Let_def)

lemma getShader_keeps_entry:
  assumes "mHash r k = Some entry"
  shows "mHash (snd (getShader env vertId fragId imm r)) k = Some entry"
proof (cases "mHash r (vertId @ ''|'' @ fragId)")
  case None
  then have "k \<noteq> vertId @ ''|'' @ fragId" using assms by auto
  then show ?thesis
    using assms by (simp add: getShader_miss [OF None] initShaders_mHash)
next
  case (Some e)
  show ?thesis using assms by (simp add: getShader_hit [OF Some])
qed

lemma getShader_calls_keep_entry:
  assumes "mHash r k = Some entry"
  shows "mHash (getShader_calls env calls r) k = Some entry"
  using assms
proof (induction calls arbitrary: r)
  case Nil
  then show ?case by simp
next
  case (Cons c calls)
  obtain v f i where c: "c = (v, f, i)" by (cases c) auto
  have "mHash (snd (getShader env v f i r)) k = Some entry"
    using Cons.prems by (rule getShader_keeps_entry)
  then have "mHash (getShader_calls env calls (snd (getShader env v f i r))) k = Some entry"
    by (rule Cons.IH)
  then show ?case by (simp add: c)
qed

text \<open>
  The key of the cache is \<^verbatim>\<open>vertId + '|' + fragId\<close>. For ids without the separator, as
  the shader names of the renderer are, two pairs have the same key only if they are the
  same pair, so the key of a pair is absent from the cache until the pair is looked up.
\<close>

lemma key_inj:
  assumes "CHR ''|'' \<notin> set v" "CHR ''|'' \<notin> set v'"
      and "v @ ''|'' @ f = v' @ ''|'' @ f'"
  shows "v = v' \<and> f = f'"
  using assms
proof (induction v arbitrary: v')
  case Nil
  then show ?case by (cases v') auto
next
  case (Cons c v)
  then show ?case by (cases v') auto
qed

lemma getShader_keeps_miss:
  assumes "mHash r k = None" "vertId @ ''|'' @ fragId \<noteq> k"
  shows "mHash (snd (getShader env vertId fragId imm r)) k = None"
proof (cases "mHash r (vertId @ ''|'' @ fragId)")
  case None
  show ?thesis
    using assms by (simp add: getShader_miss [OF None] initShaders_mHash)
next
  case (Some e)
  show ?thesis using assms by (simp add: getShader_hit [OF Some])
qed

lemma getShader_calls_keep_miss:
  assumes "mHash r k = None"
      and "\<forall>c \<in> set calls. fst c @ ''|'' @ fst (snd c) \<noteq> k"
  shows "mHash (getShader_calls env calls r) k = None"
  using assms
proof (induction calls arbitrary: r)
  case Nil
  then show ?case by simp
next
  case (Cons c calls)
  obtain v f i where c: "c = (v, f, i)" by (cases c) auto
  have "v @ ''|'' @ f \<noteq> k" using Cons.prems(2) c by simp
  then have "mHash (snd (getShader env v f i r)) k = None"
    using Cons.prems(1) by (simp add: getShader_keeps_miss)
  moreover have "\<forall>c \<in> set calls. fst c @ ''|'' @ fst (snd c) \<noteq> k"
    using Cons.prems(2) by simp
  ultimately have "mHash (getShader_calls env calls (snd (getShader env v f i r))) k = None"
    by (rule Cons.IH)
  then show ?case by (simp add: c)
qed

lemma sample_renderer_eq:
  "sample_renderer =
     \<lparr>width = 100, height = 100, pixelDensity = 1,
      GL = initContext 100 100,
      ambientLightCount = 0, directionalLightCount = 0, pointLightCount = 0,
      curCamera = None, uMVMatrix = 0, uPMatrix = 1, uNMatrix = 2,
      mHash = Map.empty, isImmediateDrawing = False,
      curFillColor = [0.5, 0.5, 0.5, 1.0], curStrokeColor = [0.5, 0.5, 0.5, 1.0],
      pointSize = 5.0, curShader = None, curShaderId = None, newShader = False,
      drawMode = None, alerts = []\<rparr>"
  by (simp add: sample_renderer_def RendererGL_def new_matrix_def empty_store_def Let_def)

lemma sample_store_fields:
  "uMVMatrixStack sample_store = []"
  "next_ref sample_store = 3"
  "matrix_of sample_store 0 = Identity"
  "matrix_of sample_store (Suc 0) = Identity"
  by (simp_all add: sample_store_def RendererGL_def new_matrix_def empty_store_def Let_def
      term_lib_def)

lemma sample_env_compiles:
  "compile_status sample_env stage shaderId" "link_status sample_env vertId fragId"
  by (simp_all add: sample_env_def)

lemma introspect_attributes_absent:
  "n \<notin> ai_name ` set ais \<Longrightarrow> introspect_attributes ais tab n = tab n"
  by (induction ais arbitrary: tab) auto

lemma introspect_attributes_at:
  assumes "ai \<in> set ais"
      and "\<forall>aj \<in> set ais. ai_name aj = ai_name ai \<longrightarrow> aj = ai"
  shows "introspect_attributes ais tab (ai_name ai) =
           Some \<lparr>a_name = ai_name ai, a_location = ai_location ai,
                 a_type = ai_type ai, a_size = ai_size ai\<rparr>"
  using assms
proof (induction ais arbitrary: tab)
  case Nil
  then show ?case by simp
next
  case (Cons a ais)
  show ?case
  proof (cases "ai \<in> set ais")
    case True
    have "\<forall>aj \<in> set ais. ai_name aj = ai_name ai \<longrightarrow> aj = ai"
      using Cons.prems(2) by simp
    then show ?thesis using Cons.IH [OF True] by simp
  next
    case False
    then have a: "a = ai" using Cons.prems(1) by simp
    have "ai_name ai \<notin> ai_name ` set ais"
      using Cons.prems(2) False by auto
    then show ?thesis
      by (simp add: a introspect_attributes_absent)
  qed
qed

lemma introspect_uniforms_absent:
  "n \<notin> uniformName_of ` set uis \<Longrightarrow> introspect_uniforms uis si tab n = tab n"
  by (induction uis arbitrary: si tab) (auto simp add: Let_def)

lemma introspect_uniforms_at:
  assumes "i < length uis"
      and "\<forall>j < length uis. uniformName_of (uis ! j) = uniformName_of (uis ! i) \<longrightarrow> j = i"
  shows "introspect_uniforms uis si tab (uniformName_of (uis ! i)) =
           Some \<lparr>u_location = ai_location (uis ! i), u_size = ai_size (uis ! i),
                 u_name = uniformName_of (uis ! i), u_type = ai_type (uis ! i),
                 samplerIndex =
                   (if ai_type (uis ! i) = GL_SAMPLER_2D
                    then Some (si + length (filter (\<lambda>u. ai_type u = GL_SAMPLER_2D) (take i uis)))
                    else None)\<rparr>"
  using assms
proof (induction uis arbitrary: i si tab)
  case Nil
  then show ?case by simp
next
  case (Cons u uis)
  show ?case
  proof (cases i)
    case 0
    have "uniformName_of u \<notin> uniformName_of ` set uis"
    proof
      assume "uniformName_of u \<in> uniformName_of ` set uis"
      then obtain k where k: "k < length uis" "uniformName_of (uis ! k) = uniformName_of u"
        by (auto simp add: in_set_conv_nth)
      then have "Suc k < length (u # uis)"
        "uniformName_of ((u # uis) ! Suc k) = uniformName_of ((u # uis) ! i)"
        by (simp_all add: 0)
      then have "Suc k = i" using Cons.prems(2) by blast
      then show False using 0 by simp
    qed
    then show ?thesis
      by (simp add: 0 Let_def introspect_uniforms_absent)
  next
    case (Suc i')
    have l: "i' < length uis" using Cons.prems(1) Suc by simp
    have u: "\<forall>j < length uis. uniformName_of (uis ! j) = uniformName_of (uis ! i') \<longrightarrow> j = i'"
    proof (intro allI impI)
      fix j
      assume j: "j < length uis" "uniformName_of (uis ! j) = uniformName_of (uis ! i')"
      then have "Suc j < length (u # uis)"
        "uniformName_of ((u # uis) ! Suc j) = uniformName_of ((u # uis) ! i)"
        by (simp_all add: Suc)
      then have "Suc j = i" using Cons.prems(2) by blast
      then show "j = i'" using Suc by simp
    qed
    show ?thesis
      using Cons.IH [OF l u] by (simp add: Suc Let_def)
  qed
qed

lemma indexOf_from_suffix:
  assumes "CHR ''['' \<notin> set base"
  shows "indexOf_from (base @ ''[0]'' @ rest) ''[0]'' i = i + int (length base)"
  using assms
proof (induction base arbitrary: i)
  case Nil
  then show ?case by simp
next
  case (Cons c base)
  have c: "c \<noteq> CHR ''[''" and b: "CHR ''['' \<notin> set base"
    using Cons.prems by auto
  have "indexOf_from ((c # base) @ ''[0]'' @ rest) ''[0]'' i
      = indexOf_from (base @ ''[0]'' @ rest) ''[0]'' (i + 1)"
    using c by simp
  then show ?case using Cons.IH [OF b, of "i + 1"] by simp
qed

lemma uniformName_of_array:
  assumes "ai_name ui = base @ ''[0]''" "CHR ''['' \<notin> set base" "1 < ai_size ui"
  shows "uniformName_of ui = base"
  using assms indexOf_from_suffix [of base "[]" 0]
  by (simp add: uniformName_of_def indexOf_def substring0_def)

lemma uniformName_of_plain:
  assumes "ai_size ui \<le> 1"
  shows "uniformName_of ui = ai_name ui"
  using assms by (simp add: uniformName_of_def)

lemma first_lookup_misses:
  assumes "mHash r0 = Map.empty"
      and "CHR ''|'' \<notin> set vertId"
      and "\<forall>c \<in> set before. CHR ''|'' \<notin> set (fst c)"
      and "\<forall>c \<in> set before. (fst c, fst (snd c)) \<noteq> (vertId, fragId)"
  shows "mHash (getShader_calls env before r0) (vertId @ ''|'' @ fragId) = None"
proof (rule getShader_calls_keep_miss)
  show "mHash r0 (vertId @ ''|'' @ fragId) = None" using assms(1) by simp
  show "\<forall>c \<in> set before. fst c @ ''|'' @ fst (snd c) \<noteq> vertId @ ''|'' @ fragId"
  proof
    fix c assume c: "c \<in> set before"
    show "fst c @ ''|'' @ fst (snd c) \<noteq> vertId @ ''|'' @ fragId"
    proof
      assume "fst c @ ''|'' @ fst (snd c) = vertId @ ''|'' @ fragId"
      then have "fst c = vertId \<and> fst (snd c) = fragId"
        using key_inj [of "fst c" vertId "fst (snd c)" fragId] assms(2) assms(3) c by blast
      then show False using assms(4) c by auto
    qed
  qed
qed

text \<open>
  C4, as the code has it. The cache is keyed by \<^verbatim>\<open>vertId + '|' + fragId\<close>. When the
  vertex ids contain no \<^verbatim>\<open>'|'\<close>, the first lookup of a pair (after any lookups of other
  pairs on a cache that started empty) runs \<^verbatim>\<open>_initShaders\<close>: the vertex stage is
  compiled once and, if it compiles, the fragment stage once. When both compile, the
  program is linked once, and its tables hold every reported attribute under its name and
  every reported uniform under its stored name (an array uniform \<^verbatim>\<open>base[0]\<close> of size
  above 1 under \<^verbatim>\<open>base\<close>), with its location, size and type, each sampler with the number
  of samplers before it, and nothing else. After that, whatever other lookups are made in
  between, every lookup of the same pair returns the same cached program and changes
  nothing but \<^verbatim>\<open>curShaderId\<close>: it compiles and links nothing.
\<close>

theorem getShader_first_lookup:
  assumes empty: "mHash r0 = Map.empty"
      and sep: "CHR ''|'' \<notin> set vertId"
      and seps: "\<forall>c \<in> set before. CHR ''|'' \<notin> set (fst c)"
      and new: "\<forall>c \<in> set before. (fst c, fst (snd c)) \<noteq> (vertId, fragId)"
  shows "\<exists>p r1.
      getShader env vertId fragId imm (getShader_calls env before r0) = (p, r1)
    \<and> compile_log (GL r1) =
        compile_log (GL (getShader_calls env before r0)) @ (VERTEX_SHADER, vertId) #
          (if compile_status env VERTEX_SHADER vertId then [(FRAGMENT_SHADER, fragId)] else [])
    \<and> (compile_status env VERTEX_SHADER vertId \<and> compile_status env FRAGMENT_SHADER fragId \<longrightarrow>
         (\<exists>prog. p = Some prog
            \<and> handle prog = next_program (GL (getShader_calls env before r0))
            \<and> link_log (GL r1) = link_log (GL (getShader_calls env before r0)) @ [handle prog]
            \<and> (\<forall>ai \<in> set (active_attributes env vertId fragId).
                  (\<forall>aj \<in> set (active_attributes env vertId fragId).
                      ai_name aj = ai_name ai \<longrightarrow> aj = ai) \<longrightarrow>
                  attributes prog (ai_name ai) =
                    Some \<lparr>a_name = ai_name ai, a_location = ai_location ai,
                          a_type = ai_type ai, a_size = ai_size ai\<rparr>)
            \<and> (\<forall>n. n \<notin> ai_name ` set (active_attributes env vertId fragId) \<longrightarrow>
                  attributes prog n = None)
            \<and> (\<forall>i < length (active_uniforms env vertId fragId).
                  (\<forall>j < length (active_uniforms env vertId fragId).
                      uniformName_of (active_uniforms env vertId fragId ! j)
                        = uniformName_of (active_uniforms env vertId fragId ! i) \<longrightarrow> j = i) \<longrightarrow>
                  uniforms prog (uniformName_of (active_uniforms env vertId fragId ! i)) =
                    Some \<lparr>u_location = ai_location (active_uniforms env vertId fragId ! i),
                          u_size = ai_size (active_uniforms env vertId fragId ! i),
                          u_name = uniformName_of (active_uniforms env vertId fragId ! i),
                          u_type = ai_type (active_uniforms env vertId fragId ! i),
                          samplerIndex =
                            (if ai_type (active_uniforms env vertId fragId ! i) = GL_SAMPLER_2D
                             then Some (length (filter (\<lambda>u. ai_type u = GL_SAMPLER_2D)
                                          (take i (active_uniforms env vertId fragId))))
                             else None)\<rparr>)
            \<and> (\<forall>n. n \<notin> uniformName_of ` set (active_uniforms env vertId fragId) \<longrightarrow>
                  uniforms prog n = None)))
    \<and> (\<forall>ui base. ai_name ui = base @ ''[0]'' \<and> CHR ''['' \<notin> set base \<and> 1 < ai_size ui \<longrightarrow>
          uniformName_of ui = base)
    \<and> (\<forall>ui. ai_size ui \<le> 1 \<longrightarrow> uniformName_of ui = ai_name ui)
    \<and> (\<forall>calls imm'.
          getShader env vertId fragId imm' (getShader_calls env calls r1)
          = (p, (getShader_calls env calls r1)\<lparr>curShaderId := Some (vertId @ ''|'' @ fragId)\<rparr>))"
proof -
  let ?k = "vertId @ ''|'' @ fragId"
  let ?r = "getShader_calls env before r0"
  let ?A = "active_attributes env vertId fragId"
  let ?U = "active_uniforms env vertId fragId"
  let ?i = "initShaders env vertId fragId imm ?r"
  let ?r1 = "(snd ?i)\<lparr>mHash := (mHash (snd ?i))(?k \<mapsto> fst ?i), newShader := True,
                       curShaderId := Some ?k\<rparr>"
  have miss: "mHash ?r ?k = None"
    by (rule first_lookup_misses [OF empty sep seps new])
  have g: "getShader env vertId fragId imm ?r = (fst ?i, ?r1)"
    by (rule getShader_miss [OF miss])
  have entry: "mHash ?r1 ?k = Some (fst ?i)" by simp
  have log: "compile_log (GL ?r1) =
        compile_log (GL ?r) @ (VERTEX_SHADER, vertId) #
          (if compile_status env VERTEX_SHADER vertId then [(FRAGMENT_SHADER, fragId)] else [])"
  proof (cases "compile_status env VERTEX_SHADER vertId")
    case False
    show ?thesis using False by (simp add: initShaders_vertex_fails [OF False])
  next
    case True
    show ?thesis
    proof (cases "compile_status env FRAGMENT_SHADER fragId")
      case False
      show ?thesis using True by (simp add: initShaders_fragment_fails [OF True False])
    next
      case f: True
      show ?thesis using True by (simp add: initShaders_compiles [OF True f])
    qed
  qed
  have ok: "compile_status env VERTEX_SHADER vertId \<and> compile_status env FRAGMENT_SHADER fragId \<longrightarrow>
         (\<exists>prog. fst ?i = Some prog
            \<and> handle prog = next_program (GL ?r)
            \<and> link_log (GL ?r1) = link_log (GL ?r) @ [handle prog]
            \<and> (\<forall>ai \<in> set ?A. (\<forall>aj \<in> set ?A. ai_name aj = ai_name ai \<longrightarrow> aj = ai) \<longrightarrow>
                  attributes prog (ai_name ai) =
                    Some \<lparr>a_name = ai_name ai, a_location = ai_location ai,
                          a_type = ai_type ai, a_size = ai_size ai\<rparr>)
            \<and> (\<forall>n. n \<notin> ai_name ` set ?A \<longrightarrow> attributes prog n = None)
            \<and> (\<forall>i < length ?U.
                  (\<forall>j < length ?U. uniformName_of (?U ! j) = uniformName_of (?U ! i) \<longrightarrow> j = i) \<longrightarrow>
                  uniforms prog (uniformName_of (?U ! i)) =
                    Some \<lparr>u_location = ai_location (?U ! i), u_size = ai_size (?U ! i),
                          u_name = uniformName_of (?U ! i), u_type = ai_type (?U ! i),
                          samplerIndex =
                            (if ai_type (?U ! i) = GL_SAMPLER_2D
                             then Some (length (filter (\<lambda>u. ai_type u = GL_SAMPLER_2D) (take i ?U)))
                             else None)\<rparr>)
            \<and> (\<forall>n. n \<notin> uniformName_of ` set ?U \<longrightarrow> uniforms prog n = None))"
  proof (intro impI)
    assume c: "compile_status env VERTEX_SHADER vertId \<and> compile_status env FRAGMENT_SHADER fragId"
    let ?p = "\<lparr>handle = next_program (GL ?r),
               attributes = introspect_attributes ?A Map.empty,
               uniforms = introspect_uniforms ?U 0 Map.empty\<rparr>"
    note ic = initShaders_compiles [OF conjunct1 [OF c] conjunct2 [OF c], of imm ?r]
    have p: "fst ?i = Some ?p" by (simp add: ic)
    have l: "link_log (GL ?r1) = link_log (GL ?r) @ [handle ?p]" by (simp add: ic)
    have a1: "\<forall>ai \<in> set ?A. (\<forall>aj \<in> set ?A. ai_name aj = ai_name ai \<longrightarrow> aj = ai) \<longrightarrow>
                  attributes ?p (ai_name ai) =
                    Some \<lparr>a_name = ai_name ai, a_location = ai_location ai,
                          a_type = ai_type ai, a_size = ai_size ai\<rparr>"
      by (simp add: introspect_attributes_at)
    have a2: "\<forall>n. n \<notin> ai_name ` set ?A \<longrightarrow> attributes ?p n = None"
      by (simp add: introspect_attributes_absent)
    have u1: "\<forall>i < length ?U.
                  (\<forall>j < length ?U. uniformName_of (?U ! j) = uniformName_of (?U ! i) \<longrightarrow> j = i) \<longrightarrow>
                  uniforms ?p (uniformName_of (?U ! i)) =
                    Some \<lparr>u_location = ai_location (?U ! i), u_size = ai_size (?U ! i),
                          u_name = uniformName_of (?U ! i), u_type = ai_type (?U ! i),
                          samplerIndex =
                            (if ai_type (?U ! i) = GL_SAMPLER_2D
                             then Some (length (filter (\<lambda>u. ai_type u = GL_SAMPLER_2D) (take i ?U)))
                             else None)\<rparr>"
    proof (intro allI impI)
      fix i
      assume i: "i < length ?U"
        and u: "\<forall>j < length ?U. uniformName_of (?U ! j) = uniformName_of (?U ! i) \<longrightarrow> j = i"
      show "uniforms ?p (uniformName_of (?U ! i)) =
                    Some \<lparr>u_location = ai_location (?U ! i), u_size = ai_size (?U ! i),
                          u_name = uniformName_of (?U ! i), u_type = ai_type (?U ! i),
                          samplerIndex =
                            (if ai_type (?U ! i) = GL_SAMPLER_2D
                             then Some (length (filter (\<lambda>u. ai_type u = GL_SAMPLER_2D) (take i ?U)))
                             else None)\<rparr>"
        using introspect_uniforms_at [OF i u, of 0 Map.empty] by simp
    qed
    have u2: "\<forall>n. n \<notin> uniformName_of ` set ?U \<longrightarrow> uniforms ?p n = None"
      by (simp add: introspect_uniforms_absent)
    show "\<exists>prog. fst ?i = Some prog
            \<and> handle prog = next_program (GL ?r)
            \<and> link_log (GL ?r1) = link_log (GL ?r) @ [handle prog]
            \<and> (\<forall>ai \<in> set ?A. (\<forall>aj \<in> set ?A. ai_name aj = ai_name ai \<longrightarrow> aj = ai) \<longrightarrow>
                  attributes prog (ai_name ai) =
                    Some \<lparr>a_name = ai_name ai, a_location = ai_location ai,
                          a_type = ai_type ai, a_size = ai_size ai\<rparr>)
            \<and> (\<forall>n. n \<notin> ai_name ` set ?A \<longrightarrow> attributes prog n = None)
            \<and> (\<forall>i < length ?U.
                  (\<forall>j < length ?U. uniformName_of (?U ! j) = uniformName_of (?U ! i) \<longrightarrow> j = i) \<longrightarrow>
                  uniforms prog (uniformName_of (?U ! i)) =
                    Some \<lparr>u_location = ai_location (?U ! i), u_size = ai_size (?U ! i),
                          u_name = uniformName_of (?U ! i), u_type = ai_type (?U ! i),
                          samplerIndex =
                            (if ai_type (?U ! i) = GL_SAMPLER_2D
                             then Some (length (filter (\<lambda>u. ai_type u = GL_SAMPLER_2D) (take i ?U)))
                             else None)\<rparr>)
            \<and> (\<forall>n. n \<notin> uniformName_of ` set ?U \<longrightarrow> uniforms prog n = None)"
      apply (rule exI [of _ ?p])
      apply (intro conjI)
            apply (rule p)
           apply simp
          apply (rule l)
         apply (rule a1)
        apply (rule a2)
       apply (rule u1)
      apply (rule u2)
      done
  qed
  have trim: "\<forall>ui base. ai_name ui = base @ ''[0]'' \<and> CHR ''['' \<notin> set base \<and> 1 < ai_size ui \<longrightarrow>
          uniformName_of ui = base"
    using uniformName_of_array by blast
  have plain: "\<forall>ui. ai_size ui \<le> 1 \<longrightarrow> uniformName_of ui = ai_name ui"
    using uniformName_of_plain by blast
  have later: "\<forall>calls imm'.
      getShader env vertId fragId imm' (getShader_calls env calls ?r1)
      = (fst ?i, (getShader_calls env calls ?r1)\<lparr>curShaderId := Some ?k\<rparr>)"
  proof (intro allI)
    fix calls imm'
    have "mHash (getShader_calls env calls ?r1) ?k = Some (fst ?i)"
      using entry by (rule getShader_calls_keep_entry)
    then show "getShader env vertId fragId imm' (getShader_calls env calls ?r1)
      = (fst ?i, (getShader_calls env calls ?r1)\<lparr>curShaderId := Some ?k\<rparr>)"
      by (rule getShader_hit)
  qed
  show ?thesis
    apply (rule exI [of _ "fst ?i"])
    apply (rule exI [of _ ?r1])
    apply (intro conjI)
         apply (rule g)
        apply (rule log)
       apply (rule ok)
      apply (rule trim)
     apply (rule plain)
    apply (rule later)
    done
qed

theorem getShader_first_lookup_witness:
  "mHash sample_renderer = Map.empty
   \<and> CHR ''|'' \<notin> set ''lightVert''
   \<and> CHR ''|'' \<notin> set ''normalVert''
   \<and> (''normalVert'', ''basicFrag'') \<noteq> (''lightVert'', ''lightTextureFrag'')
   \<and> compile_status sample_env VERTEX_SHADER ''lightVert''
   \<and> compile_status sample_env FRAGMENT_SHADER ''lightTextureFrag''
   \<and> compile_log (GL (snd (getShader sample_env ''lightVert'' ''lightTextureFrag'' False
         (getShader_calls sample_env [(''normalVert'', ''basicFrag'', False)] sample_renderer))))
       = [(VERTEX_SHADER, ''normalVert''), (FRAGMENT_SHADER, ''basicFrag''),
          (VERTEX_SHADER, ''lightVert''), (FRAGMENT_SHADER, ''lightTextureFrag'')]
   \<and> link_log (GL (snd (getShader sample_env ''lightVert'' ''lightTextureFrag'' False
         (getShader_calls sample_env [(''normalVert'', ''basicFrag'', False)] sample_renderer))))
       = [0, 1]
   \<and> (case fst (getShader sample_env ''lightVert'' ''lightTextureFrag'' False
         (getShader_calls sample_env [(''normalVert'', ''basicFrag'', False)] sample_renderer)) of
         None \<Rightarrow> False
       | Some prog \<Rightarrow>
           handle prog = 1
           \<and> attributes prog ''aPosition'' =
               Some \<lparr>a_name = ''aPosition'', a_location = 0, a_type = GL_FLOAT_VEC3, a_size = 1\<rparr>
           \<and> attributes prog ''aNormal'' = None
           \<and> uniforms prog ''uAmbientColor'' =
               Some \<lparr>u_location = 0, u_size = 8, u_name = ''uAmbientColor'',
                     u_type = GL_FLOAT_VEC3, samplerIndex = None\<rparr>
           \<and> uniforms prog ''uAmbientColor[0]'' = None)
   \<and> getShader sample_env ''lightVert'' ''lightTextureFrag'' False
        (snd (getShader sample_env ''lightVert'' ''lightTextureFrag'' False
           (getShader_calls sample_env [(''normalVert'', ''basicFrag'', False)] sample_renderer)))
       = getShader sample_env ''lightVert'' ''lightTextureFrag'' False
           (getShader_calls sample_env [(''normalVert'', ''basicFrag'', False)] sample_renderer)"
proof -
  define R where "R = getShader_calls sample_env [(''normalVert'', ''basicFrag'', False)] sample_renderer"
  have empty: "mHash sample_renderer = Map.empty" by (simp add: sample_renderer_eq)
  have sep: "CHR ''|'' \<notin> set ''lightVert''" by simp
  have seps: "\<forall>c \<in> set [(''normalVert'', ''basicFrag'', False)]. CHR ''|'' \<notin> set (fst c)" by simp
  have new: "\<forall>c \<in> set [(''normalVert'', ''basicFrag'', False)].
      (fst c, fst (snd c)) \<noteq> (''lightVert'', ''lightTextureFrag'')" by simp
  have c: "compile_status sample_env VERTEX_SHADER ''lightVert''"
    "compile_status sample_env FRAGMENT_SHADER ''lightTextureFrag''"
    "compile_status sample_env VERTEX_SHADER ''normalVert''"
    "compile_status sample_env FRAGMENT_SHADER ''basicFrag''"
    by (simp_all add: sample_env_compiles)
  have env: "active_uniforms sample_env ''lightVert'' ''lightTextureFrag'' = light_uniforms"
    "active_attributes sample_env ''lightVert'' ''lightTextureFrag'' = position_attribute"
    by (simp_all add: sample_env_def)
  have miss0: "mHash sample_renderer (''normalVert'' @ ''|'' @ ''basicFrag'') = None"
    by (simp add: empty)
  have s0: "compile_log (GL sample_renderer) = []" "link_log (GL sample_renderer) = []"
    "next_program (GL sample_renderer) = 0"
    by (simp_all add: sample_renderer_eq initContext_def)
  have R: "compile_log (GL R) = [(VERTEX_SHADER, ''normalVert''), (FRAGMENT_SHADER, ''basicFrag'')]"
    "link_log (GL R) = [0]" "next_program (GL R) = 1"
    unfolding R_def
    by (simp_all add: getShader_miss [OF miss0] initShaders_compiles [OF c(3) c(4)]
        s0 sample_env_compiles)
  from getShader_first_lookup [OF empty sep seps new, where env = sample_env and imm = False]
  obtain p r1 where
    g: "getShader sample_env ''lightVert'' ''lightTextureFrag'' False R = (p, r1)"
    and log: "compile_log (GL r1) =
        compile_log (GL R) @ (VERTEX_SHADER, ''lightVert'') #
          (if compile_status sample_env VERTEX_SHADER ''lightVert''
           then [(FRAGMENT_SHADER, ''lightTextureFrag'')] else [])"
    and ok: "compile_status sample_env VERTEX_SHADER ''lightVert''
             \<and> compile_status sample_env FRAGMENT_SHADER ''lightTextureFrag'' \<longrightarrow>
         (\<exists>prog. p = Some prog
            \<and> handle prog = next_program (GL R)
            \<and> link_log (GL r1) = link_log (GL R) @ [handle prog]
            \<and> (\<forall>ai \<in> set (active_attributes sample_env ''lightVert'' ''lightTextureFrag'').
                  (\<forall>aj \<in> set (active_attributes sample_env ''lightVert'' ''lightTextureFrag'').
                      ai_name aj = ai_name ai \<longrightarrow> aj = ai) \<longrightarrow>
                  attributes prog (ai_name ai) =
                    Some \<lparr>a_name = ai_name ai, a_location = ai_location ai,
                          a_type = ai_type ai, a_size = ai_size ai\<rparr>)
            \<and> (\<forall>n. n \<notin> ai_name ` set (active_attributes sample_env ''lightVert'' ''lightTextureFrag'') \<longrightarrow>
                  attributes prog n = None)
            \<and> (\<forall>i < length (active_uniforms sample_env ''lightVert'' ''lightTextureFrag'').
                  (\<forall>j < length (active_uniforms sample_env ''lightVert'' ''lightTextureFrag'').
                      uniformName_of (active_uniforms sample_env ''lightVert'' ''lightTextureFrag'' ! j)
                        = uniformName_of (active_uniforms sample_env ''lightVert'' ''lightTextureFrag'' ! i)
                      \<longrightarrow> j = i) \<longrightarrow>
                  uniforms prog (uniformName_of (active_uniforms sample_env ''lightVert'' ''lightTextureFrag'' ! i)) =
                    Some \<lparr>u_location = ai_location (active_uniforms sample_env ''lightVert'' ''lightTextureFrag'' ! i),
                          u_size = ai_size (active_uniforms sample_env ''lightVert'' ''lightTextureFrag'' ! i),
                          u_name = uniformName_of (active_uniforms sample_env ''lightVert'' ''lightTextureFrag'' ! i),
                          u_type = ai_type (active_uniforms sample_env ''lightVert'' ''lightTextureFrag'' ! i),
                          samplerIndex =
                            (if ai_type (active_uniforms sample_env ''lightVert'' ''lightTextureFrag'' ! i) = GL_SAMPLER_2D
                             then Some (length (filter (\<lambda>u. ai_type u = GL_SAMPLER_2D)
                                          (take i (active_uniforms sample_env ''lightVert'' ''lightTextureFrag''))))
                             else None)\<rparr>)
            \<and> (\<forall>n. n \<notin> uniformName_of ` set (active_uniforms sample_env ''lightVert'' ''lightTextureFrag'') \<longrightarrow>
                  uniforms prog n = None))"
    and later: "\<forall>calls imm'.
          getShader sample_env ''lightVert'' ''lightTextureFrag'' imm' (getShader_calls sample_env calls r1)
          = (p, (getShader_calls sample_env calls r1)
                  \<lparr>curShaderId := Some (''lightVert'' @ ''|'' @ ''lightTextureFrag'')\<rparr>)"
    unfolding R_def by blast
  from ok c obtain prog where
    p: "p = Some prog"
    and h: "handle prog = next_program (GL R)"
    and l: "link_log (GL r1) = link_log (GL R) @ [handle prog]"
    and a1: "\<forall>ai \<in> set position_attribute.
                  (\<forall>aj \<in> set position_attribute. ai_name aj = ai_name ai \<longrightarrow> aj = ai) \<longrightarrow>
                  attributes prog (ai_name ai) =
                    Some \<lparr>a_name = ai_name ai, a_location = ai_location ai,
                          a_type = ai_type ai, a_size = ai_size ai\<rparr>"
    and a2: "\<forall>n. n \<notin> ai_name ` set position_attribute \<longrightarrow> attributes prog n = None"
    and u1: "\<forall>i < length light_uniforms.
                  (\<forall>j < length light_uniforms.
                      uniformName_of (light_uniforms ! j) = uniformName_of (light_uniforms ! i)
                      \<longrightarrow> j = i) \<longrightarrow>
                  uniforms prog (uniformName_of (light_uniforms ! i)) =
                    Some \<lparr>u_location = ai_location (light_uniforms ! i),
                          u_size = ai_size (light_uniforms ! i),
                          u_name = uniformName_of (light_uniforms ! i),
                          u_type = ai_type (light_uniforms ! i),
                          samplerIndex =
                            (if ai_type (light_uniforms ! i) = GL_SAMPLER_2D
                             then Some (length (filter (\<lambda>u. ai_type u = GL_SAMPLER_2D)
                                          (take i light_uniforms)))
                             else None)\<rparr>"
    and u2: "\<forall>n. n \<notin> uniformName_of ` set light_uniforms \<longrightarrow> uniforms prog n = None"
    unfolding env by blast
  have names: "map uniformName_of light_uniforms =
      [''uAmbientColor'', ''uAmbientLightCount'', ''uDirectionalColor'', ''uLightingDirection'',
       ''uDirectionalLightCount'', ''uPointLightColor'', ''uPointLightLocation'',
       ''uPointLightCount'', ''uMaterialColor'', ''uUseLighting'']"
    by (simp add: light_uniforms_def uniformName_of_def substring0_def indexOf_def)
  have len: "length light_uniforms = 10" by (simp add: light_uniforms_def)
  have nth: "\<And>j. j < 10 \<Longrightarrow> uniformName_of (light_uniforms ! j) = map uniformName_of light_uniforms ! j"
    by (simp add: len)
  have uniq: "\<forall>j < length light_uniforms.
      uniformName_of (light_uniforms ! j) = uniformName_of (light_uniforms ! 0) \<longrightarrow> j = 0"
  proof (intro allI impI)
    fix j assume j: "j < length light_uniforms"
      and e: "uniformName_of (light_uniforms ! j) = uniformName_of (light_uniforms ! 0)"
    have d: "distinct (map uniformName_of light_uniforms)" by (simp add: names)
    have z: "0 < length light_uniforms" by (simp add: len)
    show "j = 0"
    proof (rule ccontr)
      assume "j \<noteq> 0"
      then have "map uniformName_of light_uniforms ! j \<noteq> map uniformName_of light_uniforms ! 0"
        using d j z by (simp only: distinct_conv_nth length_map) blast
      then show False
        using e j z by (simp only: nth_map) simp
    qed
  qed
  have first: "light_uniforms ! 0 =
      \<lparr>ai_name = ''uAmbientColor[0]'', ai_type = GL_FLOAT_VEC3, ai_size = 8, ai_location = 0\<rparr>"
    by (simp add: light_uniforms_def)
  have k0: "uniformName_of (light_uniforms ! 0) = ''uAmbientColor''"
    using names by (simp add: light_uniforms_def)
  have ua: "uniforms prog ''uAmbientColor'' =
               Some \<lparr>u_location = 0, u_size = 8, u_name = ''uAmbientColor'',
                     u_type = GL_FLOAT_VEC3, samplerIndex = None\<rparr>"
  proof -
    have z: "0 < length light_uniforms" by (simp add: len)
    from u1 z uniq have "uniforms prog (uniformName_of (light_uniforms ! 0)) =
        Some \<lparr>u_location = ai_location (light_uniforms ! 0),
              u_size = ai_size (light_uniforms ! 0),
              u_name = uniformName_of (light_uniforms ! 0),
              u_type = ai_type (light_uniforms ! 0),
              samplerIndex =
                (if ai_type (light_uniforms ! 0) = GL_SAMPLER_2D
                 then Some (length (filter (\<lambda>u. ai_type u = GL_SAMPLER_2D)
                              (take 0 light_uniforms)))
                 else None)\<rparr>"
      by blast
    then show ?thesis unfolding k0 by (simp add: first)
  qed
  have "''uAmbientColor[0]'' \<notin> set (map uniformName_of light_uniforms)"
    by (simp add: names)
  then have ub: "uniforms prog ''uAmbientColor[0]'' = None"
    using u2 by simp
  have ap: "attributes prog ''aPosition'' =
               Some \<lparr>a_name = ''aPosition'', a_location = 0, a_type = GL_FLOAT_VEC3, a_size = 1\<rparr>"
    using a1 by (simp add: position_attribute_def)
  have an: "attributes prog ''aNormal'' = None"
    using a2 by (simp add: position_attribute_def)
  from later have again:
    "getShader sample_env ''lightVert'' ''lightTextureFrag'' False (getShader_calls sample_env [] r1)
     = (p, (getShader_calls sample_env [] r1)
              \<lparr>curShaderId := Some (''lightVert'' @ ''|'' @ ''lightTextureFrag'')\<rparr>)"
    by blast
  have cur: "curShaderId r1 = Some (''lightVert'' @ ''|'' @ ''lightTextureFrag'')"
    using g by (auto simp add: getShader_def Let_def split: prod.splits)
  have same: "r1\<lparr>curShaderId := Some (''lightVert'' @ ''|'' @ ''lightTextureFrag'')\<rparr> = r1"
    using cur by simp
  have again': "getShader sample_env ''lightVert'' ''lightTextureFrag'' False r1 = (p, r1)"
    using again same by simp
  have logs: "compile_log (GL r1) =
      [(VERTEX_SHADER, ''normalVert''), (FRAGMENT_SHADER, ''basicFrag''),
       (VERTEX_SHADER, ''lightVert''), (FRAGMENT_SHADER, ''lightTextureFrag'')]"
    "link_log (GL r1) = [0, 1]" "handle prog = 1"
    using log l h c by (simp_all add: R)
  show ?thesis
    unfolding R_def [symmetric]
    using empty c logs ua ub ap an by (simp add: g again' p)
qed

text \<open>
  Two pairs with one key: after a lookup of \<^verbatim>\<open>('a|b', 'c')\<close>, the first lookup of
  \<^verbatim>\<open>('a', 'b|c')\<close> compiles nothing and returns the program of the other pair. And a
  first lookup whose vertex stage does not compile links nothing.
\<close>

theorem first_lookup_without_compilation:
  "(''a'', ''b|c'') \<noteq> (''a|b'', ''c'')
   \<and> compile_log (GL (snd (getShader sample_env ''a'' ''b|c'' False
         (snd (getShader sample_env ''a|b'' ''c'' False sample_renderer)))))
       = [(VERTEX_SHADER, ''a|b''), (FRAGMENT_SHADER, ''c'')]
   \<and> fst (getShader sample_env ''a'' ''b|c'' False
         (snd (getShader sample_env ''a|b'' ''c'' False sample_renderer)))
       = fst (getShader sample_env ''a|b'' ''c'' False sample_renderer)
   \<and> link_log (GL (snd (getShader failing_env ''normalVert'' ''basicFrag'' False sample_renderer))) = []"
proof -
  have m: "mHash sample_renderer (''a|b'' @ ''|'' @ ''c'') = None"
    "mHash sample_renderer (''normalVert'' @ ''|'' @ ''basicFrag'') = None"
    by (simp_all add: sample_renderer_eq)
  have c: "compile_status sample_env VERTEX_SHADER ''a|b''"
    "compile_status sample_env FRAGMENT_SHADER ''c''"
    by (simp_all add: sample_env_compiles)
  have f: "\<not> compile_status failing_env VERTEX_SHADER ''normalVert''"
    by (simp add: failing_env_def)
  have s0: "compile_log (GL sample_renderer) = []" "link_log (GL sample_renderer) = []"
    by (simp_all add: sample_renderer_eq initContext_def)
  define r1 where "r1 = snd (getShader sample_env ''a|b'' ''c'' False sample_renderer)"
  define p where "p = fst (getShader sample_env ''a|b'' ''c'' False sample_renderer)"
  have e: "mHash r1 (''a'' @ ''|'' @ ''b|c'') = Some p"
    unfolding r1_def p_def by (simp add: getShader_miss [OF m(1)])
  have l1: "compile_log (GL r1) = [(VERTEX_SHADER, ''a|b''), (FRAGMENT_SHADER, ''c'')]"
    unfolding r1_def
    by (simp add: getShader_miss [OF m(1)] initShaders_compiles [OF c] s0)
  have h: "getShader sample_env ''a'' ''b|c'' False r1
      = (p, r1\<lparr>curShaderId := Some (''a'' @ ''|'' @ ''b|c'')\<rparr>)"
    by (rule getShader_hit [OF e])
  have l2: "link_log (GL (snd (getShader failing_env ''normalVert'' ''basicFrag'' False sample_renderer))) = []"
    by (simp add: getShader_miss [OF m(2)] initShaders_vertex_fails [OF f] s0)
  show ?thesis
    unfolding r1_def [symmetric] p_def [symmetric]
    using l1 l2 by (simp add: h)
qed

text \<open>
  C5, as the code has it. When the vertex or the fragment stage does not compile,
  \<^verbatim>\<open>_initShaders\<close> shows an alert that carries the info log of the compiler and returns
  \<^verbatim>\<open>null\<close>; no program is created or linked. \<^verbatim>\<open>_getShader\<close> throws nothing: it hands
  \<^verbatim>\<open>null\<close> to its caller and stores it under the key of the pair, so the cache does hold
  an entry for the pair (\<^verbatim>\<open>null\<close>, not a program), and the next lookup of the pair
  returns \<^verbatim>\<open>null\<close> again without compiling.
\<close>

theorem getShader_compile_failure:
  assumes first: "\<not> materialInHash r (vertId @ ''|'' @ fragId)"
      and fail: "\<not> compile_status env VERTEX_SHADER vertId
                 \<or> \<not> compile_status env FRAGMENT_SHADER fragId"
  shows "\<exists>r1. getShader env vertId fragId imm r = (None, r1)
           \<and> mHash r1 (vertId @ ''|'' @ fragId) = Some None
           \<and> materialInHash r1 (vertId @ ''|'' @ fragId)
           \<and> alerts r1 = alerts r @
                [if \<not> compile_status env VERTEX_SHADER vertId
                 then ''Yikes! An error occurred compiling the shaders:''
                        @ shader_info_log env VERTEX_SHADER vertId
                 else ''Darn! An error occurred compiling the shaders:''
                        @ shader_info_log env FRAGMENT_SHADER fragId]
           \<and> link_log (GL r1) = link_log (GL r)
           \<and> next_program (GL r1) = next_program (GL r)
           \<and> getShader env vertId fragId imm' r1 = (None, r1)"
proof -
  let ?k = "vertId @ ''|'' @ fragId"
  have miss: "mHash r ?k = None" using first by (simp add: materialInHash_def)
  show ?thesis
  proof (cases "compile_status env VERTEX_SHADER vertId")
    case False
    note i = initShaders_vertex_fails [OF False]
    show ?thesis
      using False
      by (simp add: getShader_miss [OF miss] i materialInHash_def getShader_hit)
  next
    case True
    then have f: "\<not> compile_status env FRAGMENT_SHADER fragId" using fail by simp
    note i = initShaders_fragment_fails [OF True f]
    show ?thesis
      using True
      by (simp add: getShader_miss [OF miss] i materialInHash_def getShader_hit)
  qed
qed

theorem getShader_compile_failure_witness:
  "\<not> materialInHash sample_renderer (''normalVert'' @ ''|'' @ ''basicFrag'')
   \<and> \<not> compile_status failing_env VERTEX_SHADER ''normalVert''
   \<and> fst (getShader failing_env ''normalVert'' ''basicFrag'' False sample_renderer) = None
   \<and> alerts (snd (getShader failing_env ''normalVert'' ''basicFrag'' False sample_renderer))
       = [''Yikes! An error occurred compiling the shaders:ERROR: 0:1: syntax error'']
   \<and> link_log (GL (snd (getShader failing_env ''normalVert'' ''basicFrag'' False sample_renderer))) = []"
proof -
  have first: "\<not> materialInHash sample_renderer (''normalVert'' @ ''|'' @ ''basicFrag'')"
    by (simp add: materialInHash_def sample_renderer_eq)
  have fail: "\<not> compile_status failing_env VERTEX_SHADER ''normalVert''
        \<or> \<not> compile_status failing_env FRAGMENT_SHADER ''basicFrag''"
    by (simp add: failing_env_def)
  have s0: "alerts sample_renderer = []" "link_log (GL sample_renderer) = []"
    by (simp_all add: sample_renderer_eq initContext_def)
  have l: "shader_info_log failing_env VERTEX_SHADER ''normalVert'' = ''ERROR: 0:1: syntax error''"
    "\<not> compile_status failing_env VERTEX_SHADER ''normalVert''"
    by (simp_all add: failing_env_def)
  from getShader_compile_failure [OF first fail, of False False]
  obtain r1 where
    "getShader failing_env ''normalVert'' ''basicFrag'' False sample_renderer = (None, r1)"
    "alerts r1 = alerts sample_renderer @
                [if \<not> compile_status failing_env VERTEX_SHADER ''normalVert''
                 then ''Yikes! An error occurred compiling the shaders:''
                        @ shader_info_log failing_env VERTEX_SHADER ''normalVert''
                 else ''Darn! An error occurred compiling the shaders:''
                        @ shader_info_log failing_env FRAGMENT_SHADER ''basicFrag'']"
    "link_log (GL r1) = link_log (GL sample_renderer)"
    by blast
  then show ?thesis
    using first fail s0 l by simp
qed

theorem failed_compile_is_cached:
  "\<not> compile_status failing_env VERTEX_SHADER ''normalVert''
   \<and> fst (getShader failing_env ''normalVert'' ''basicFrag'' False sample_renderer) = None
   \<and> materialInHash (snd (getShader failing_env ''normalVert'' ''basicFrag'' False sample_renderer))
        ''normalVert|basicFrag''"
proof -
  have miss: "mHash sample_renderer (''normalVert'' @ ''|'' @ ''basicFrag'') = None"
    by (simp add: sample_renderer_eq)
  have f: "\<not> compile_status failing_env VERTEX_SHADER ''normalVert''"
    by (simp add: failing_env_def)
  show ?thesis
    using f
    by (simp add: getShader_miss [OF miss] initShaders_vertex_fails [OF f] materialInHash_def)
qed

section \<open>Push and pop: properties\<close>

text \<open>
  C1. A \<^verbatim>\<open>push()\<close>, any sequence of transform calls on the renderer, then a \<^verbatim>\<open>pop()\<close>:
  the pop succeeds, the model-view matrix holds again the contents it had before the push,
  and the stack is as it was. The push changes no field of the renderer and no matrix
  that existed before it; the pop changes only the \<^verbatim>\<open>uMVMatrix\<close> field, so the projection
  matrix, the light counters, the shaders and the context are as before.
\<close>

theorem push_pop_restores:
  assumes mv: "uMVMatrix r < next_ref st"
      and pm: "uPMatrix r < next_ref st"
  shows "\<exists>r' st'. pop r (transform_calls lib r ts (push r st)) = Inr (r', st')
           \<and> matrix_of st' (uMVMatrix r') = matrix_of st (uMVMatrix r)
           \<and> uMVMatrixStack st' = uMVMatrixStack st
           \<and> r' = r\<lparr>uMVMatrix := uMVMatrix r'\<rparr>
           \<and> matrix_of (push r st) (uPMatrix r) = matrix_of st (uPMatrix r)
           \<and> matrix_of (push r st) (uMVMatrix r) = matrix_of st (uMVMatrix r)
           \<and> pop r (push r st)
               = Inr (r\<lparr>uMVMatrix := next_ref st\<rparr>,
                      (push r st)\<lparr>uMVMatrixStack := uMVMatrixStack st\<rparr>)"
proof -
  let ?s1 = "push r st"
  let ?s2 = "transform_calls lib r ts ?s1"
  have fresh: "next_ref st \<noteq> uMVMatrix r" using mv by simp
  have stack2: "uMVMatrixStack ?s2 = uMVMatrixStack st @ [next_ref st]"
    by (simp add: transform_calls_stack push_stack)
  have saved: "matrix_of ?s2 (next_ref st) = matrix_of st (uMVMatrix r)"
    using fresh by (simp add: transform_calls_other push_matrix_of)
  have p: "pop r ?s2 = Inr (r\<lparr>uMVMatrix := next_ref st\<rparr>, ?s2\<lparr>uMVMatrixStack := uMVMatrixStack st\<rparr>)"
    by (simp add: pop_def stack2)
  have p0: "pop r ?s1 = Inr (r\<lparr>uMVMatrix := next_ref st\<rparr>, ?s1\<lparr>uMVMatrixStack := uMVMatrixStack st\<rparr>)"
    by (simp add: pop_def push_stack)
  have keep: "matrix_of ?s1 (uPMatrix r) = matrix_of st (uPMatrix r)"
    "matrix_of ?s1 (uMVMatrix r) = matrix_of st (uMVMatrix r)"
    using mv pm by (simp_all add: push_matrix_of)
  show ?thesis
    using p p0 saved keep by simp
qed

theorem push_pop_restores_witness:
  "uMVMatrix sample_renderer < next_ref sample_store
   \<and> uPMatrix sample_renderer < next_ref sample_store
   \<and> (case pop sample_renderer
             (transform_calls term_lib sample_renderer [Translate 10 0 0, RotateX 1]
                (push sample_renderer sample_store)) of
         Inl e \<Rightarrow> False
       | Inr (r', st') \<Rightarrow>
           matrix_of st' (uMVMatrix r') = Identity
           \<and> uMVMatrixStack st' = []
           \<and> uPMatrix r' = uPMatrix sample_renderer)
   \<and> matrix_of (transform_calls term_lib sample_renderer [Translate 10 0 0, RotateX 1]
                (push sample_renderer sample_store)) (uMVMatrix sample_renderer)
       = Rotated 1 [1, 0, 0] (Translated [10, 0, 0] Identity)"
proof -
  have mv: "uMVMatrix sample_renderer < next_ref sample_store"
    and pm: "uPMatrix sample_renderer < next_ref sample_store"
    by (simp_all add: sample_renderer_eq sample_store_fields)
  have m0: "matrix_of sample_store (uMVMatrix sample_renderer) = Identity"
    by (simp add: sample_renderer_eq sample_store_fields)
  have moved: "matrix_of (transform_calls term_lib sample_renderer [Translate 10 0 0, RotateX 1]
                (push sample_renderer sample_store)) (uMVMatrix sample_renderer)
       = Rotated 1 [1, 0, 0] (Translated [10, 0, 0] Identity)"
    using mv
    by (simp add: translate_def rotateX_def rotate_def matrix_update_def push_matrix_of
        term_lib_def m0)
  from push_pop_restores [OF mv pm, of term_lib "[Translate 10 0 0, RotateX 1]"]
  obtain r' st' where
    "pop sample_renderer
       (transform_calls term_lib sample_renderer [Translate 10 0 0, RotateX 1]
          (push sample_renderer sample_store)) = Inr (r', st')"
    "matrix_of st' (uMVMatrix r') = matrix_of sample_store (uMVMatrix sample_renderer)"
    "uMVMatrixStack st' = uMVMatrixStack sample_store"
    "r' = sample_renderer\<lparr>uMVMatrix := uMVMatrix r'\<rparr>"
    by blast
  then have "case pop sample_renderer
             (transform_calls term_lib sample_renderer [Translate 10 0 0, RotateX 1]
                (push sample_renderer sample_store)) of
         Inl e \<Rightarrow> False
       | Inr (r', st') \<Rightarrow>
           matrix_of st' (uMVMatrix r') = Identity
           \<and> uMVMatrixStack st' = []
           \<and> uPMatrix r' = uPMatrix sample_renderer"
    using m0 by (simp add: sample_store_fields) (metis renderer.select_convs(10) renderer.surjective renderer.update_convs(9))
  then show ?thesis using mv pm moved by blast
qed

text \<open>
  C9. The matrix stack is one array of the module, shared by all renderers: after
  \<^verbatim>\<open>a.push()\<close>, \<^verbatim>\<open>b.pop()\<close> on any other renderer \<open>b\<close> succeeds, whatever the stack
  held before, and makes the copy that \<open>a\<close> pushed (the new object, with the contents of
  the model-view matrix of \<open>a\<close>) the model-view matrix of \<open>b\<close>.
\<close>

theorem pop_takes_other_renderers_push:
  "pop b (push a st)
     = Inr (b\<lparr>uMVMatrix := next_ref st\<rparr>, (push a st)\<lparr>uMVMatrixStack := uMVMatrixStack st\<rparr>)
   \<and> last (uMVMatrixStack (push a st)) = next_ref st
   \<and> matrix_of (push a st) (next_ref st) = matrix_of st (uMVMatrix a)"
  by (simp add: pop_def push_stack push_matrix_of)

section \<open>Colour and blending: properties\<close>

lemma initShaders_flags:
  "blend (GL (snd (initShaders env vertId fragId imm r))) = blend (GL r)"
  "depth_mask (GL (snd (initShaders env vertId fragId imm r))) = depth_mask (GL r)"
  by (simp_all add: initShaders_def gl_compileShader_def gl_linkProgram_def alert_def
      createEmptyTexture_def Let_def)

lemma getShader_flags:
  "blend (GL (snd (getShader env vertId fragId imm r))) = blend (GL r)"
  "depth_mask (GL (snd (getShader env vertId fragId imm r))) = depth_mask (GL r)"
proof -
  show "blend (GL (snd (getShader env vertId fragId imm r))) = blend (GL r)"
  proof (cases "mHash r (vertId @ ''|'' @ fragId)")
    case None
    show ?thesis by (simp add: getShader_miss [OF None] initShaders_flags)
  next
    case (Some e)
    show ?thesis by (simp add: getShader_hit [OF Some])
  qed
  show "depth_mask (GL (snd (getShader env vertId fragId imm r))) = depth_mask (GL r)"
  proof (cases "mHash r (vertId @ ''|'' @ fragId)")
    case None
    show ?thesis by (simp add: getShader_miss [OF None] initShaders_flags)
  next
    case (Some e)
    show ?thesis by (simp add: getShader_hit [OF Some])
  qed
qed

lemma useShader_flags:
  "blend (GL (useShader sp r)) = blend (GL r)"
  "depth_mask (GL (useShader sp r)) = depth_mask (GL r)"
  by (simp_all add: useShader_def)

lemma setUniform_flags:
  "blend (GL (setUniform k d r)) = blend (GL r)"
  "depth_mask (GL (setUniform k d r)) = depth_mask (GL r)"
  by (simp_all add: setUniform_def split: option.splits)

lemma applyColorBlend_flags:
  assumes "color env args \<noteq> []"
  shows "blend (GL (snd (applyColorBlend env args r))) = (last (color env args) < 1)"
    and "depth_mask (GL (snd (applyColorBlend env args r))) = (\<not> last (color env args) < 1)"
    and "fst (applyColorBlend env args r) = color env args"
  using assms by (simp_all add: applyColorBlend_def Let_def)

lemma fill_flags:
  "blend (GL (fill env args r)) = blend (GL (snd (applyColorBlend env args r)))
   \<and> depth_mask (GL (fill env args r)) = depth_mask (GL (snd (applyColorBlend env args r)))"
proof -
  obtain colors r1 where a: "applyColorBlend env args r = (colors, r1)"
    by (cases "applyColorBlend env args r")
  let ?r2 = "r1\<lparr>curFillColor := colors, drawMode := Some ''fill''\<rparr>"
  have r2: "blend (GL ?r2) = blend (GL r1)" "depth_mask (GL ?r2) = depth_mask (GL r1)"
    by simp_all
  show ?thesis
  proof (cases "isImmediateDrawing r1")
    case True
    obtain sp r3 where g: "getShader env ''immediateVert'' ''vertexColorFrag'' False ?r2 = (sp, r3)"
      by (cases "getShader env ''immediateVert'' ''vertexColorFrag'' False ?r2")
    have f: "fill env args r = useShader sp r3"
      using True by (simp add: fill_def a g)
    have r3: "blend (GL r3) = blend (GL ?r2)" "depth_mask (GL r3) = depth_mask (GL ?r2)"
      using getShader_flags [of env "''immediateVert''" "''vertexColorFrag''" False ?r2]
      by (simp_all only: g snd_conv)
    show ?thesis
      by (simp only: f useShader_flags r3 r2 a snd_conv)
  next
    case False
    obtain sp r3 where g: "getShader env ''normalVert'' ''basicFrag'' False ?r2 = (sp, r3)"
      by (cases "getShader env ''normalVert'' ''basicFrag'' False ?r2")
    have f: "fill env args r = setUniform ''uMaterialColor'' (Arr (map Num colors)) (useShader sp r3)"
      using False by (simp add: fill_def a g)
    have r3: "blend (GL r3) = blend (GL ?r2)" "depth_mask (GL r3) = depth_mask (GL ?r2)"
      using getShader_flags [of env "''normalVert''" "''basicFrag''" False ?r2]
      by (simp_all only: g snd_conv)
    show ?thesis
      by (simp only: f setUniform_flags useShader_flags r3 r2 a snd_conv)
  qed
qed

text \<open>
  Each \<^verbatim>\<open>fill\<close> call, in whatever state the renderer is, leaves blending enabled and
  depth writes disabled exactly when the alpha of the resolved colour (its last component)
  is below 1; with alpha 1 blending is disabled and depth writes are enabled. The branch
  is taken in \<^verbatim>\<open>_applyColorBlend\<close>, and a second call decides anew, whatever the first
  one left.
\<close>

theorem fill_blend_by_alpha:
  assumes "color env args \<noteq> []"
  shows "blend (GL (fill env args r)) = (last (color env args) < 1)
       \<and> depth_mask (GL (fill env args r)) = (\<not> last (color env args) < 1)
       \<and> blend (GL (snd (applyColorBlend env args r))) = (last (color env args) < 1)
       \<and> depth_mask (GL (snd (applyColorBlend env args r))) = (\<not> last (color env args) < 1)
       \<and> blend (GL (fill env args (fill env args' r))) = (last (color env args) < 1)
       \<and> depth_mask (GL (fill env args (fill env args' r))) = (\<not> last (color env args) < 1)"
  using assms fill_flags [of env args r] fill_flags [of env args "fill env args' r"]
  by (simp add: applyColorBlend_flags)

theorem fill_blend_by_alpha_witness:
  "color sample_env [Num 255, Num 0, Num 0, Num 128] \<noteq> []
   \<and> color sample_env [Num 255, Num 0, Num 0, Num 255] \<noteq> []
   \<and> blend (GL (fill sample_env [Num 255, Num 0, Num 0, Num 128] sample_renderer))
   \<and> \<not> depth_mask (GL (fill sample_env [Num 255, Num 0, Num 0, Num 128] sample_renderer))
   \<and> \<not> blend (GL (fill sample_env [Num 255, Num 0, Num 0, Num 255]
                    (fill sample_env [Num 255, Num 0, Num 0, Num 128] sample_renderer)))
   \<and> depth_mask (GL (fill sample_env [Num 255, Num 0, Num 0, Num 255]
                    (fill sample_env [Num 255, Num 0, Num 0, Num 128] sample_renderer)))"
proof -
  have c1: "color sample_env [Num 255, Num 0, Num 0, Num 128] = [1, 0, 0, 128 / 255]"
    by (simp add: sample_env_def channels255_def)
  have c2: "color sample_env [Num 255, Num 0, Num 0, Num 255] = [1, 0, 0, 1]"
    by (simp add: sample_env_def channels255_def)
  have n1: "color sample_env [Num 255, Num 0, Num 0, Num 128] \<noteq> []" by (simp add: c1)
  have n2: "color sample_env [Num 255, Num 0, Num 0, Num 255] \<noteq> []" by (simp add: c2)
  show ?thesis
    using fill_blend_by_alpha [OF n1, of sample_renderer "[]"]
      fill_blend_by_alpha [OF n2, of sample_renderer "[Num 255, Num 0, Num 0, Num 128]"]
    by (simp add: c1 c2)
qed





section \<open>Camera and resize: properties\<close>

lemma perspective_custom:
  "curCamera (fst (perspective lib pw ph fovy aspect near far r st)) = Some ''custom''"
  by (simp add: perspective_def Let_def new_matrix_def split: prod.splits)

lemma ortho_custom:
  "curCamera (fst (ortho lib pw ph left right bottom topp near far r st)) = Some ''custom''"
  by (simp add: ortho_def Let_def new_matrix_def split: prod.splits)

lemma resize_custom:
  assumes "curCamera r = Some ''custom''"
  shows "resize lib w h r st =
           (r\<lparr>width := w, height := h,
              GL := (GL r)\<lparr>drawingBufferWidth := w * pixelDensity r,
                           drawingBufferHeight := h * pixelDensity r,
                           viewport := (0, 0, w * pixelDensity r, h * pixelDensity r)\<rparr>\<rparr>, st)"
  using assms by (simp add: resize_def Renderer_resize_def Let_def)

lemma resize_no_camera:
  assumes "curCamera r = None"
  shows "snd (resize lib w h r st) = st"
    and "uPMatrix (fst (resize lib w h r st)) = uPMatrix r"
    and "curCamera (fst (resize lib w h r st)) = None"
  using assms by (simp_all add: resize_def Renderer_resize_def Let_def)

lemma resize_default:
  assumes "curCamera r = Some ''default''"
  shows "curCamera (fst (resize lib w h r st)) = Some ''default''"
    and "uPMatrix (fst (resize lib w h r st)) = next_ref st"
    and "matrix_of (snd (resize lib w h r st)) (next_ref st) =
           m_perspective lib (60 / 180 * pi) (w / h)
             ((h / 2) / tan (pi * 30 / 180) * 0.1) ((h / 2) / tan (pi * 30 / 180) * 10)
             (m_identity lib)"
  using assms
  by (simp_all add: resize_def Renderer_resize_def setDefaultCamera_def Let_def new_matrix_def
      matrix_update_def)

text \<open>
  C7. \<^verbatim>\<open>perspective()\<close> and \<^verbatim>\<open>ortho()\<close> leave the camera marked \<^verbatim>\<open>'custom'\<close>. A
  \<^verbatim>\<open>resize(w, h)\<close> of a renderer with a custom camera allocates and changes no matrix and
  keeps the reference to the projection matrix and the mark, so the projection set by
  \<^verbatim>\<open>perspective\<close> or \<^verbatim>\<open>ortho\<close> survives it. With the camera still \<^verbatim>\<open>'default'\<close>,
  \<^verbatim>\<open>resize\<close> builds a new projection matrix: the default perspective with the aspect
  ratio \<open>w / h\<close> of the new size.
\<close>

theorem resize_projection:
  "curCamera (fst (perspective lib pw ph fovy aspect near far r0 st0)) = Some ''custom''
   \<and> curCamera (fst (ortho lib pw ph left right bottom topp near far r0 st0)) = Some ''custom''
   \<and> (curCamera r = Some ''custom'' \<longrightarrow>
         snd (resize lib w h r st) = st
         \<and> uPMatrix (fst (resize lib w h r st)) = uPMatrix r
         \<and> curCamera (fst (resize lib w h r st)) = Some ''custom'')
   \<and> (curCamera r = Some ''default'' \<and> h \<noteq> 0 \<longrightarrow>
         curCamera (fst (resize lib w h r st)) = Some ''default''
         \<and> width (fst (resize lib w h r st)) = w \<and> height (fst (resize lib w h r st)) = h
         \<and> matrix_of (snd (resize lib w h r st)) (uPMatrix (fst (resize lib w h r st))) =
             m_perspective lib (60 / 180 * pi) (w / h)
               ((h / 2) / tan (pi * 30 / 180) * 0.1) ((h / 2) / tan (pi * 30 / 180) * 10)
               (m_identity lib))"
proof -
  have d: "curCamera r = Some ''default'' \<Longrightarrow>
      width (fst (resize lib w h r st)) = w \<and> height (fst (resize lib w h r st)) = h"
    by (simp add: resize_def Renderer_resize_def setDefaultCamera_def Let_def new_matrix_def)
  show ?thesis
    using d by (simp add: perspective_custom ortho_custom resize_custom resize_default)
qed

theorem resize_projection_witness:
  "curCamera (fst (perspective term_lib 100 100 None None None None sample_renderer sample_store))
     = Some ''custom''
   \<and> snd (resize term_lib 200 100
             (fst (perspective term_lib 100 100 None None None None sample_renderer sample_store))
             (snd (perspective term_lib 100 100 None None None None sample_renderer sample_store)))
       = snd (perspective term_lib 100 100 None None None None sample_renderer sample_store)
   \<and> uPMatrix (fst (resize term_lib 200 100
             (fst (perspective term_lib 100 100 None None None None sample_renderer sample_store))
             (snd (perspective term_lib 100 100 None None None None sample_renderer sample_store))))
       = uPMatrix (fst (perspective term_lib 100 100 None None None None sample_renderer sample_store))
   \<and> curCamera (fst (setDefaultCamera term_lib sample_renderer sample_store)) = Some ''default''
   \<and> (200::real) \<noteq> 0
   \<and> matrix_of (snd (resize term_lib 400 200
                        (fst (setDefaultCamera term_lib sample_renderer sample_store))
                        (snd (setDefaultCamera term_lib sample_renderer sample_store))))
        (uPMatrix (fst (resize term_lib 400 200
                        (fst (setDefaultCamera term_lib sample_renderer sample_store))
                        (snd (setDefaultCamera term_lib sample_renderer sample_store)))))
       = Perspective (60 / 180 * pi) (400 / 200)
           ((200 / 2) / tan (pi * 30 / 180) * 0.1) ((200 / 2) / tan (pi * 30 / 180) * 10) Identity"
proof -
  let ?p = "perspective term_lib 100 100 None None None None sample_renderer sample_store"
  let ?d = "setDefaultCamera term_lib sample_renderer sample_store"
  have dflt: "curCamera (fst ?d) = Some ''default''"
    by (simp add: setDefaultCamera_def sample_renderer_eq Let_def new_matrix_def)
  have lib: "m_perspective term_lib = Perspective" "m_identity term_lib = Identity"
    by (simp_all add: term_lib_def)
  note t1 = resize_projection [where lib = term_lib and pw = 100 and ph = 100 and fovy = None
      and aspect = None and near = None and far = None and ?r0.0 = sample_renderer
      and ?st0.0 = sample_store and r = "fst ?p" and w = 200 and h = 100 and st = "snd ?p"]
  note t2 = resize_projection [where lib = term_lib and r = "fst ?d" and w = 400 and h = 200
      and st = "snd ?d"]
  have a: "curCamera (fst ?p) = Some ''custom''" using t1 by blast
  have b: "snd (resize term_lib 200 100 (fst ?p) (snd ?p)) = snd ?p
      \<and> uPMatrix (fst (resize term_lib 200 100 (fst ?p) (snd ?p))) = uPMatrix (fst ?p)"
    using t1 a by blast
  have c: "matrix_of (snd (resize term_lib 400 200 (fst ?d) (snd ?d)))
        (uPMatrix (fst (resize term_lib 400 200 (fst ?d) (snd ?d))))
       = m_perspective term_lib (60 / 180 * pi) (400 / 200)
           ((200 / 2) / tan (pi * 30 / 180) * 0.1) ((200 / 2) / tan (pi * 30 / 180) * 10)
           (m_identity term_lib)"
    using t2 dflt by simp
  show ?thesis
    using a b c dflt by (simp only: lib) simp
qed

section \<open>Light arguments: properties\<close>

lemma trailing_xyz_fails:
  "isl (trailing_xyz args) =
     (js_at args (int (length args) - 1) = Undefined \<or> js_at args (int (length args) - 1) = Null)"
  by (cases "js_at args (int (length args) - 1)") (simp_all add: trailing_xyz_def Let_def)

lemma trailing_xyz_type_error:
  "trailing_xyz args = Inl e \<Longrightarrow> \<exists>msg. e = TypeError msg"
  by (cases "js_at args (int (length args) - 1)")
     (auto simp add: trailing_xyz_def Let_def split: if_splits)

lemma directionalLight_fails:
  "isl (directionalLight env args r) = isl (trailing_xyz args)"
  by (cases "trailing_xyz args") (simp_all add: directionalLight_def Let_def split: prod.splits)

lemma pointLight_fails:
  "isl (pointLight env args r) = isl (trailing_xyz args)"
  by (cases "trailing_xyz args") (simp_all add: pointLight_def Let_def split: prod.splits)

lemma directionalLight_error:
  "directionalLight env args r = Inl (e, r') \<Longrightarrow> trailing_xyz args = Inl e"
  by (cases "trailing_xyz args") (auto simp add: directionalLight_def Let_def split: prod.splits)

lemma pointLight_error:
  "pointLight env args r = Inl (e, r') \<Longrightarrow> trailing_xyz args = Inl e"
  by (cases "trailing_xyz args") (auto simp add: pointLight_def Let_def split: prod.splits)

lemma trailing_xyz_number:
  assumes "typeof (js_at args (int (length args) - 1)) = ''number''"
  shows "trailing_xyz args =
           Inr [js_at args (int (length args) - 3), js_at args (int (length args) - 2),
                js_at args (int (length args) - 1)]"
  using assms by (simp add: trailing_xyz_def Let_def)

lemma trailing_xyz_object:
  assumes "js_at args (int (length args) - 1) = Obj fs"
  shows "trailing_xyz args =
           Inr [case map_of fs ''x'' of None \<Rightarrow> Undefined | Some v \<Rightarrow> v,
                case map_of fs ''y'' of None \<Rightarrow> Undefined | Some v \<Rightarrow> v,
                case map_of fs ''z'' of None \<Rightarrow> Undefined | Some v \<Rightarrow> v]"
  using assms by (simp add: trailing_xyz_def Let_def)

lemma trailing_xyz_no_fields:
  assumes "js_at args (int (length args) - 1) = Str s
           \<or> js_at args (int (length args) - 1) = Bool b
           \<or> js_at args (int (length args) - 1) = Arr xs"
  shows "trailing_xyz args = Inr [Undefined, Undefined, Undefined]"
  using assms by (auto simp add: trailing_xyz_def Let_def)

text \<open>
  C8, as the code has it. \<^verbatim>\<open>directionalLight\<close> and \<^verbatim>\<open>pointLight\<close> fail exactly when
  their last argument is \<^verbatim>\<open>undefined\<close> or \<^verbatim>\<open>null\<close> (a call without arguments
  included), and then with the TypeError of reading its \<^verbatim>\<open>x\<close> property. Every other last
  argument is accepted without a check: after a number the last three arguments are taken
  as they are, an object gives its \<^verbatim>\<open>x\<close>, \<^verbatim>\<open>y\<close>, \<^verbatim>\<open>z\<close> fields, \<^verbatim>\<open>undefined\<close> where
  it has none, and a string, a boolean or an array gives three \<^verbatim>\<open>undefined\<close> components.
\<close>

theorem light_fails_only_on_undefined_or_null:
  "isl (directionalLight env args r) =
     (js_at args (int (length args) - 1) = Undefined \<or> js_at args (int (length args) - 1) = Null)
   \<and> isl (pointLight env args r) =
     (js_at args (int (length args) - 1) = Undefined \<or> js_at args (int (length args) - 1) = Null)
   \<and> (\<forall>e r'. directionalLight env args r = Inl (e, r') \<or> pointLight env args r = Inl (e, r')
          \<longrightarrow> (\<exists>msg. e = TypeError msg))
   \<and> trailing_xyz (front @ [Str s]) = Inr [Undefined, Undefined, Undefined]
   \<and> trailing_xyz (front @ [Bool b]) = Inr [Undefined, Undefined, Undefined]
   \<and> trailing_xyz (front @ [Obj []]) = Inr [Undefined, Undefined, Undefined]
   \<and> trailing_xyz [c, Num z] = Inr [Undefined, c, Num z]
   \<and> (typeof (js_at args (int (length args) - 1)) = ''number'' \<longrightarrow>
         trailing_xyz args =
           Inr [js_at args (int (length args) - 3), js_at args (int (length args) - 2),
                js_at args (int (length args) - 1)])
   \<and> (\<forall>fs. js_at args (int (length args) - 1) = Obj fs \<longrightarrow>
         trailing_xyz args =
           Inr [case map_of fs ''x'' of None \<Rightarrow> Undefined | Some v \<Rightarrow> v,
                case map_of fs ''y'' of None \<Rightarrow> Undefined | Some v \<Rightarrow> v,
                case map_of fs ''z'' of None \<Rightarrow> Undefined | Some v \<Rightarrow> v])
   \<and> (\<forall>t q xs. js_at args (int (length args) - 1) = Str t
                \<or> js_at args (int (length args) - 1) = Bool q
                \<or> js_at args (int (length args) - 1) = Arr xs \<longrightarrow>
         trailing_xyz args = Inr [Undefined, Undefined, Undefined])"
proof -
  have last: "\<And>v. js_at (front @ [v]) (int (length (front @ [v])) - 1) = v"
    by (simp add: js_at_def)
  have e: "\<forall>e r'. directionalLight env args r = Inl (e, r') \<or> pointLight env args r = Inl (e, r')
          \<longrightarrow> (\<exists>msg. e = TypeError msg)"
    using directionalLight_error pointLight_error trailing_xyz_type_error by blast
  have s: "trailing_xyz (front @ [Str s]) = Inr [Undefined, Undefined, Undefined]"
    "trailing_xyz (front @ [Bool b]) = Inr [Undefined, Undefined, Undefined]"
    "trailing_xyz (front @ [Obj []]) = Inr [Undefined, Undefined, Undefined]"
    unfolding trailing_xyz_def Let_def last by simp_all
  have n: "trailing_xyz [c, Num z] = Inr [Undefined, c, Num z]"
    by (simp add: trailing_xyz_def js_at_def)
  have g1: "typeof (js_at args (int (length args) - 1)) = ''number'' \<longrightarrow>
         trailing_xyz args =
           Inr [js_at args (int (length args) - 3), js_at args (int (length args) - 2),
                js_at args (int (length args) - 1)]"
    using trailing_xyz_number by blast
  have g2: "\<forall>fs. js_at args (int (length args) - 1) = Obj fs \<longrightarrow>
         trailing_xyz args =
           Inr [case map_of fs ''x'' of None \<Rightarrow> Undefined | Some v \<Rightarrow> v,
                case map_of fs ''y'' of None \<Rightarrow> Undefined | Some v \<Rightarrow> v,
                case map_of fs ''z'' of None \<Rightarrow> Undefined | Some v \<Rightarrow> v]"
    using trailing_xyz_object by blast
  have g3: "\<forall>t q xs. js_at args (int (length args) - 1) = Str t
                \<or> js_at args (int (length args) - 1) = Bool q
                \<or> js_at args (int (length args) - 1) = Arr xs \<longrightarrow>
         trailing_xyz args = Inr [Undefined, Undefined, Undefined]"
    using trailing_xyz_no_fields by blast
  have f: "isl (directionalLight env args r) =
     (js_at args (int (length args) - 1) = Undefined \<or> js_at args (int (length args) - 1) = Null)"
    "isl (pointLight env args r) =
     (js_at args (int (length args) - 1) = Undefined \<or> js_at args (int (length args) - 1) = Null)"
    by (simp_all add: directionalLight_fails pointLight_fails trailing_xyz_fails)
  show ?thesis
    using f e s n g1 g2 g3 by blast
qed

theorem light_fails_only_on_undefined_or_null_witness:
  "isl (directionalLight sample_env [] sample_renderer)
   \<and> \<not> isl (pointLight sample_env [Num 250, Num 250, Num 250, Str ''above''] sample_renderer)
   \<and> (case directionalLight sample_env [Num 250, Num 250, Num 250, Null] sample_renderer of
         Inl (e, r') \<Rightarrow> e = TypeError ''Cannot read property x of null''
       | Inr r' \<Rightarrow> False)
   \<and> trailing_xyz [Num 250, Num 250, Num 250, Num 1, Num 0, Num 0] = Inr [Num 1, Num 0, Num 0]
   \<and> trailing_xyz [Num 250, Num 250, Num 250, Obj [(''x'', Num 1), (''y'', Num 2), (''z'', Num 3)]]
       = Inr [Num 1, Num 2, Num 3]"
proof -
  note t = light_fails_only_on_undefined_or_null
  have a: "isl (directionalLight sample_env [] sample_renderer)"
    using t [of sample_env "[]" sample_renderer] by (simp add: js_at_def)
  have b: "\<not> isl (pointLight sample_env [Num 250, Num 250, Num 250, Str ''above''] sample_renderer)"
    using t [of sample_env "[Num 250, Num 250, Num 250, Str ''above'']" sample_renderer]
    by (simp add: js_at_def)
  have "isl (directionalLight sample_env [Num 250, Num 250, Num 250, Null] sample_renderer)"
    using t [of sample_env "[Num 250, Num 250, Num 250, Null]" sample_renderer]
    by (simp add: js_at_def)
  then obtain e r' where
    e: "directionalLight sample_env [Num 250, Num 250, Num 250, Null] sample_renderer = Inl (e, r')"
    by (cases "directionalLight sample_env [Num 250, Num 250, Num 250, Null] sample_renderer") auto
  have "trailing_xyz [Num 250, Num 250, Num 250, Null] = Inl e"
    using e by (rule directionalLight_error)
  then have m: "e = TypeError ''Cannot read property x of null''"
    by (simp add: trailing_xyz_def js_at_def)
  have c: "trailing_xyz [Num 250, Num 250, Num 250, Num 1, Num 0, Num 0] = Inr [Num 1, Num 0, Num 0]"
    using t [of sample_env "[Num 250, Num 250, Num 250, Num 1, Num 0, Num 0]" sample_renderer]
    by (simp add: js_at_def)
  have d: "trailing_xyz [Num 250, Num 250, Num 250, Obj [(''x'', Num 1), (''y'', Num 2), (''z'', Num 3)]]
       = Inr [Num 1, Num 2, Num 3]"
    using t [of sample_env
        "[Num 250, Num 250, Num 250, Obj [(''x'', Num 1), (''y'', Num 2), (''z'', Num 3)]]"
        sample_renderer]
    by (simp add: js_at_def)
  show ?thesis using a b c d by (simp add: e m)
qed

theorem directionalLight_accepts_string:
  "\<not> isl (directionalLight sample_env [Num 250, Num 250, Num 250, Str ''down''] sample_renderer)
   \<and> \<not> isl (pointLight sample_env [Num 250, Num 250, Num 250, Bool True] sample_renderer)"
  by (simp add: directionalLight_fails pointLight_fails trailing_xyz_fails js_at_def)

text \<open>
  A light call that throws stops after the colour was sent: the light shader is looked
  up and current, and no counter has changed.
\<close>

lemma directionalLight_state_at_throw:
  assumes "directionalLight env args r = Inl (e, r')"
  shows "r' = setUniform ''uDirectionalColor[0]''
                (Arr (map Num (take 3 (color env [js_at args 0, js_at args 1, js_at args 2]))))
                (useShader (fst (getShader env ''lightVert'' ''lightTextureFrag'' False r))
                   (snd (getShader env ''lightVert'' ''lightTextureFrag'' False r)))"
  using assms
  by (cases "trailing_xyz args") (auto simp add: directionalLight_def Let_def split: prod.splits)

lemma pointLight_state_at_throw:
  assumes "pointLight env args r = Inl (e, r')"
  shows "r' = setUniform ''uPointLightColor[0]''
                (Arr (map Num (take 3 (color env [js_at args 0, js_at args 1, js_at args 2]))))
                (useShader (fst (getShader env ''lightVert'' ''lightTextureFrag'' False r))
                   (snd (getShader env ''lightVert'' ''lightTextureFrag'' False r)))"
  using assms
  by (cases "trailing_xyz args") (auto simp add: pointLight_def Let_def split: prod.splits)

section \<open>Lights: properties\<close>

lemma setUniform_writes:
  assumes "curShader r = Some p"
  shows "setUniform k d r = r\<lparr>GL := (GL r)\<lparr>uniform_log := uniform_log (GL r) @ program_writes p k d\<rparr>\<rparr>"
  using assms by (simp add: setUniform_def program_writes_def split: option.splits)

lemma update_renderer:
  "fst (update lib r st) =
     r\<lparr>uMVMatrix := next_ref st, ambientLightCount := 0, directionalLightCount := 0,
       pointLightCount := 0\<rparr>"
  by (simp add: update_def Let_def new_matrix_def split: prod.splits)

text \<open>
  What \<^verbatim>\<open>ambientLight\<close> does once the light program \<open>p\<close> is the current shader: the
  counter goes up by one, and the uniforms are written under four fixed names. The name
  for the colour is \<^verbatim>\<open>'uAmbientColor[0]'\<close> whatever the counter is.
\<close>

lemma ambientLight_with_program:
  assumes g: "getShader env ''lightVert'' ''lightTextureFrag'' False r = (Some p, r1)"
      and cur: "curShader (useShader (Some p) r1) = Some p"
  shows "ambientLight env args r =
           (useShader (Some p) r1)
             \<lparr>GL := (GL (useShader (Some p) r1))
                \<lparr>uniform_log := uniform_log (GL (useShader (Some p) r1))
                   @ program_writes p ''uAmbientColor[0]'' (Arr (map Num (take 3 (color env args))))
                   @ program_writes p ''uMaterialColor'' (Arr [Num 1, Num 1, Num 1, Num 1])
                   @ program_writes p ''uAmbientLightCount''
                       (Num (real (ambientLightCount (useShader (Some p) r1) + 1)))
                   @ program_writes p ''uUseLighting'' (Bool True)\<rparr>,
              ambientLightCount := ambientLightCount (useShader (Some p) r1) + 1\<rparr>"
proof -
  define c where "c = Arr (map Num (take 3 (color env args)))"
  define r2 where "r2 = useShader (Some p) r1"
  define r3 where "r3 = setUniform ''uAmbientColor[0]'' c r2"
  define r4 where "r4 = setUniform ''uMaterialColor'' (Arr [Num 1, Num 1, Num 1, Num 1]) r3"
  define r5 where "r5 = r4\<lparr>ambientLightCount := ambientLightCount r4 + 1\<rparr>"
  define r6 where "r6 = setUniform ''uAmbientLightCount'' (Num (real (ambientLightCount r5))) r5"
  define r7 where "r7 = setUniform ''uUseLighting'' (Bool True) r6"
  have a: "ambientLight env args r = r7"
    by (simp add: ambientLight_def g Let_def r7_def r6_def r5_def r4_def r3_def r2_def c_def)
  have c2: "curShader r2 = Some p" using cur by (simp add: r2_def)
  have e3: "r3 = r2\<lparr>GL := (GL r2)\<lparr>uniform_log := uniform_log (GL r2)
                 @ program_writes p ''uAmbientColor[0]'' c\<rparr>\<rparr>"
    unfolding r3_def by (rule setUniform_writes [OF c2])
  have c3: "curShader r3 = Some p" by (simp add: e3 c2)
  have e4: "r4 = r3\<lparr>GL := (GL r3)\<lparr>uniform_log := uniform_log (GL r3)
                 @ program_writes p ''uMaterialColor'' (Arr [Num 1, Num 1, Num 1, Num 1])\<rparr>\<rparr>"
    unfolding r4_def by (rule setUniform_writes [OF c3])
  have c5: "curShader r5 = Some p" by (simp add: r5_def e4 c3)
  have e6: "r6 = r5\<lparr>GL := (GL r5)\<lparr>uniform_log := uniform_log (GL r5)
                 @ program_writes p ''uAmbientLightCount'' (Num (real (ambientLightCount r5)))\<rparr>\<rparr>"
    unfolding r6_def by (rule setUniform_writes [OF c5])
  have c6: "curShader r6 = Some p" by (simp add: e6 c5)
  have e7: "r7 = r6\<lparr>GL := (GL r6)\<lparr>uniform_log := uniform_log (GL r6)
                 @ program_writes p ''uUseLighting'' (Bool True)\<rparr>\<rparr>"
    unfolding r7_def by (rule setUniform_writes [OF c6])
  have "r7 = r2
             \<lparr>GL := (GL r2)
                \<lparr>uniform_log := uniform_log (GL r2)
                   @ program_writes p ''uAmbientColor[0]'' c
                   @ program_writes p ''uMaterialColor'' (Arr [Num 1, Num 1, Num 1, Num 1])
                   @ program_writes p ''uAmbientLightCount'' (Num (real (ambientLightCount r2 + 1)))
                   @ program_writes p ''uUseLighting'' (Bool True)\<rparr>,
              ambientLightCount := ambientLightCount r2 + 1\<rparr>"
    by (simp add: e7 e6 r5_def e4 e3)
  then show ?thesis
    unfolding a r2_def c_def .
qed

lemma light_table:
  "introspect_uniforms light_uniforms 0 Map.empty ''uAmbientColor[0]'' = None"
  "introspect_uniforms light_uniforms 0 Map.empty ''uMaterialColor'' =
     Some \<lparr>u_location = 43, u_size = 1, u_name = ''uMaterialColor'', u_type = GL_FLOAT_VEC4,
           samplerIndex = None\<rparr>"
  "introspect_uniforms light_uniforms 0 Map.empty ''uAmbientLightCount'' =
     Some \<lparr>u_location = 8, u_size = 1, u_name = ''uAmbientLightCount'', u_type = GL_INT,
           samplerIndex = None\<rparr>"
  "introspect_uniforms light_uniforms 0 Map.empty ''uUseLighting'' =
     Some \<lparr>u_location = 44, u_size = 1, u_name = ''uUseLighting'', u_type = GL_BOOL,
           samplerIndex = None\<rparr>"
  "introspect_uniforms light_uniforms 0 Map.empty ''uAmbientColor'' =
     Some \<lparr>u_location = 0, u_size = 8, u_name = ''uAmbientColor'', u_type = GL_FLOAT_VEC3,
           samplerIndex = None\<rparr>"
  by (simp_all add: light_uniforms_def Let_def uniformName_of_def substring0_def indexOf_def)

text \<open>
  C2 on a concrete pass. After \<^verbatim>\<open>_update()\<close> and two \<^verbatim>\<open>ambientLight\<close> calls, on a light
  shader whose \<^verbatim>\<open>uAmbientColor\<close> array has eight slots, the counter is 2, yet no colour
  was written to any slot: the table of the program holds the array under
  \<^verbatim>\<open>'uAmbientColor'\<close>, the calls look for \<^verbatim>\<open>'uAmbientColor[0]'\<close>, and that name does not
  depend on the counter. The only uniforms written are the material colour, the count and
  the lighting flag.
\<close>

theorem two_ambient_lights_write_no_colour:
  "ambientLightCount two_ambient_lights = 2
   \<and> uniform_log (GL two_ambient_lights) =
       [Uniform4f 43 (Num 1) (Num 1) (Num 1) (Num 1), Uniform1i 8 (Num 1), Uniform1i 44 (Num 1),
        Uniform4f 43 (Num 1) (Num 1) (Num 1) (Num 1), Uniform1i 8 (Num 2), Uniform1i 44 (Num 1)]"
proof -
  define P where "P = \<lparr>handle = 0,
      attributes = introspect_attributes position_attribute Map.empty,
      uniforms = introspect_uniforms light_uniforms 0 Map.empty\<rparr>"
  define r0 where "r0 = fst (update term_lib sample_renderer sample_store)"
  define r0a where "r0a = snd (getShader sample_env ''lightVert'' ''lightTextureFrag'' False r0)"
  define r1 where "r1 = ambientLight sample_env [Num 100] r0"
  define r1a where "r1a = r1\<lparr>curShaderId := Some (''lightVert'' @ ''|'' @ ''lightTextureFrag'')\<rparr>"
  have w: "\<And>d. program_writes P ''uAmbientColor[0]'' d = []"
    "program_writes P ''uMaterialColor'' (Arr [Num 1, Num 1, Num 1, Num 1])
       = [Uniform4f 43 (Num 1) (Num 1) (Num 1) (Num 1)]"
    "\<And>d. program_writes P ''uAmbientLightCount'' d = [Uniform1i 8 d]"
    "program_writes P ''uUseLighting'' (Bool True) = [Uniform1i 44 (Num 1)]"
    by (simp_all add: program_writes_def P_def light_table uniform_calls_def)
  have f0: "mHash r0 = Map.empty" "curShader r0 = None" "ambientLightCount r0 = 0"
    "uniform_log (GL r0) = []" "next_program (GL r0) = 0"
    by (simp_all add: r0_def update_renderer sample_renderer_eq initContext_def)
  have env: "compile_status sample_env VERTEX_SHADER ''lightVert''"
    "compile_status sample_env FRAGMENT_SHADER ''lightTextureFrag''"
    "active_uniforms sample_env ''lightVert'' ''lightTextureFrag'' = light_uniforms"
    "active_attributes sample_env ''lightVert'' ''lightTextureFrag'' = position_attribute"
    by (simp_all add: sample_env_def)
  have miss: "mHash r0 (''lightVert'' @ ''|'' @ ''lightTextureFrag'') = None"
    by (simp add: f0)
  have i: "fst (initShaders sample_env ''lightVert'' ''lightTextureFrag'' False r0) = Some P"
    by (simp add: initShaders_compiles [OF env(1) env(2)] env f0 P_def)
  have g1: "getShader sample_env ''lightVert'' ''lightTextureFrag'' False r0 = (Some P, r0a)"
    unfolding r0a_def by (simp add: getShader_miss [OF miss] i)
  have f0a: "curShader r0a = None" "ambientLightCount r0a = 0" "uniform_log (GL r0a) = []"
    "mHash r0a ''lightVert|lightTextureFrag'' = Some (Some P)"
    unfolding r0a_def
    by (simp_all add: getShader_miss [OF miss] initShaders_compiles [OF env(1) env(2)] env f0 P_def)
  have u1: "useShader (Some P) r0a
      = r0a\<lparr>GL := (GL r0a)\<lparr>program_in_use := Some 0\<rparr>, curShader := Some P\<rparr>"
    by (simp add: useShader_def f0a P_def)
  have cur1: "curShader (useShader (Some P) r0a) = Some P" by (simp add: u1)
  have r1: "r1 = (useShader (Some P) r0a)
             \<lparr>GL := (GL (useShader (Some P) r0a))
                \<lparr>uniform_log := uniform_log (GL (useShader (Some P) r0a))
                   @ program_writes P ''uAmbientColor[0]''
                       (Arr (map Num (take 3 (color sample_env [Num 100]))))
                   @ program_writes P ''uMaterialColor'' (Arr [Num 1, Num 1, Num 1, Num 1])
                   @ program_writes P ''uAmbientLightCount''
                       (Num (real (ambientLightCount (useShader (Some P) r0a) + 1)))
                   @ program_writes P ''uUseLighting'' (Bool True)\<rparr>,
              ambientLightCount := ambientLightCount (useShader (Some P) r0a) + 1\<rparr>"
    unfolding r1_def by (rule ambientLight_with_program [OF g1 cur1])
  have f1: "curShader r1 = Some P" "ambientLightCount r1 = 1"
    "uniform_log (GL r1) =
       [Uniform4f 43 (Num 1) (Num 1) (Num 1) (Num 1), Uniform1i 8 (Num 1), Uniform1i 44 (Num 1)]"
    "mHash r1 ''lightVert|lightTextureFrag'' = Some (Some P)"
    by (simp_all add: r1 u1 w f0a)
  have hit: "mHash r1 (''lightVert'' @ ''|'' @ ''lightTextureFrag'') = Some (Some P)"
    using f1(4) by simp
  have g2: "getShader sample_env ''lightVert'' ''lightTextureFrag'' False r1 = (Some P, r1a)"
    unfolding r1a_def by (rule getShader_hit [OF hit])
  have u2: "useShader (Some P) r1a = r1a"
    by (simp add: useShader_def r1a_def f1)
  have cur2: "curShader (useShader (Some P) r1a) = Some P"
    unfolding u2 by (simp add: r1a_def f1)
  have r2: "two_ambient_lights = (useShader (Some P) r1a)
             \<lparr>GL := (GL (useShader (Some P) r1a))
                \<lparr>uniform_log := uniform_log (GL (useShader (Some P) r1a))
                   @ program_writes P ''uAmbientColor[0]''
                       (Arr (map Num (take 3 (color sample_env [Num 200]))))
                   @ program_writes P ''uMaterialColor'' (Arr [Num 1, Num 1, Num 1, Num 1])
                   @ program_writes P ''uAmbientLightCount''
                       (Num (real (ambientLightCount (useShader (Some P) r1a) + 1)))
                   @ program_writes P ''uUseLighting'' (Bool True)\<rparr>,
              ambientLightCount := ambientLightCount (useShader (Some P) r1a) + 1\<rparr>"
    unfolding two_ambient_lights_def r1_def [symmetric] r0_def [symmetric]
    by (rule ambientLight_with_program [OF g2 cur2])
  show ?thesis
    unfolding r2 u2 by (simp add: w r1a_def f1)
qed

text \<open>Each light call that returns has added one to its own counter, and to no other.\<close>

lemma getShader_counts:
  "ambientLightCount (snd (getShader env vertId fragId imm r)) = ambientLightCount r
   \<and> directionalLightCount (snd (getShader env vertId fragId imm r)) = directionalLightCount r
   \<and> pointLightCount (snd (getShader env vertId fragId imm r)) = pointLightCount r"
proof (cases "mHash r (vertId @ ''|'' @ fragId)")
  case None
  have "ambientLightCount (snd (initShaders env vertId fragId imm r)) = ambientLightCount r
     \<and> directionalLightCount (snd (initShaders env vertId fragId imm r)) = directionalLightCount r
     \<and> pointLightCount (snd (initShaders env vertId fragId imm r)) = pointLightCount r"
    by (simp add: initShaders_def gl_compileShader_def gl_linkProgram_def alert_def
        createEmptyTexture_def Let_def)
  then show ?thesis by (simp add: getShader_miss [OF None])
next
  case (Some e)
  show ?thesis by (simp add: getShader_hit [OF Some])
qed

lemma useShader_counts:
  "ambientLightCount (useShader sp r) = ambientLightCount r"
  "directionalLightCount (useShader sp r) = directionalLightCount r"
  "pointLightCount (useShader sp r) = pointLightCount r"
  by (simp_all add: useShader_def)

lemma setUniform_counts:
  "ambientLightCount (setUniform k d r) = ambientLightCount r"
  "directionalLightCount (setUniform k d r) = directionalLightCount r"
  "pointLightCount (setUniform k d r) = pointLightCount r"
  by (simp_all add: setUniform_def split: option.splits)

lemma ambientLight_count:
  "ambientLightCount (ambientLight env args r) = ambientLightCount r + 1"
proof -
  obtain sp r1 where g: "getShader env ''lightVert'' ''lightTextureFrag'' False r = (sp, r1)"
    by (cases "getShader env ''lightVert'' ''lightTextureFrag'' False r")
  have "ambientLightCount r1 = ambientLightCount r"
    using getShader_counts [of env "''lightVert''" "''lightTextureFrag''" False r]
    by (simp only: g snd_conv)
  then show ?thesis
    by (simp add: ambientLight_def g Let_def setUniform_counts useShader_counts)
qed

lemma directionalLight_count:
  assumes "directionalLight env args r = Inr r'"
  shows "directionalLightCount r' = directionalLightCount r + 1"
proof -
  obtain sp r1 where g: "getShader env ''lightVert'' ''lightTextureFrag'' False r = (sp, r1)"
    by (cases "getShader env ''lightVert'' ''lightTextureFrag'' False r")
  have c: "directionalLightCount r1 = directionalLightCount r"
    using getShader_counts [of env "''lightVert''" "''lightTextureFrag''" False r]
    by (simp only: g snd_conv)
  obtain xyz where x: "trailing_xyz args = Inr xyz"
    using assms by (cases "trailing_xyz args") (simp_all add: directionalLight_def g Let_def)
  show ?thesis
    using assms c
    by (auto simp add: directionalLight_def g x Let_def setUniform_counts useShader_counts)
qed

lemma pointLight_count:
  assumes "pointLight env args r = Inr r'"
  shows "pointLightCount r' = pointLightCount r + 1"
proof -
  obtain sp r1 where g: "getShader env ''lightVert'' ''lightTextureFrag'' False r = (sp, r1)"
    by (cases "getShader env ''lightVert'' ''lightTextureFrag'' False r")
  have c: "pointLightCount r1 = pointLightCount r"
    using getShader_counts [of env "''lightVert''" "''lightTextureFrag''" False r]
    by (simp only: g snd_conv)
  obtain xyz where x: "trailing_xyz args = Inr xyz"
    using assms by (cases "trailing_xyz args") (simp_all add: pointLight_def g Let_def)
  show ?thesis
    using assms c
    by (auto simp add: pointLight_def g x Let_def setUniform_counts useShader_counts)
qed

section \<open>Reading pixels: properties\<close>

lemma get_beyond:
  assumes "x > sketch_width p \<or> y > sketch_height p \<or> x < 0 \<or> y < 0"
  shows "get p (Some x) (Some y) None None = Pixels [Num 0, Num 0, Num 0, Num 255]"
  using assms by (auto simp add: get_def js_gt_def js_lt_def)

lemma get_at_right_edge:
  assumes "0 \<le> sketch_width p" "0 \<le> y" "y \<le> sketch_height p"
  shows "get p (Some (sketch_width p)) (Some y) None None
           = Pixels (copy_pixels (getImageData p (sketch_width p) y 1 1) 0 [])"
  using assms by (simp add: get_def js_gt_def js_lt_def to_number_def)

text \<open>
  C10 at the right edge. On a canvas of 100 by 100 pixels the columns are 0 to 99, so
  (100, 50) is outside of it; \<^verbatim>\<open>get(100, 50)\<close> does not take the branch of the sentinel,
  whose test is \<^verbatim>\<open>x > this.width\<close>, and returns what \<^verbatim>\<open>getImageData\<close> reads there:
  transparent black, not the opaque black sentinel.
\<close>

theorem get_at_width_is_not_sentinel:
  "get blank_canvas (Some 100) (Some 50) None None = Pixels [Num 0, Num 0, Num 0, Num 0]
   \<and> get blank_canvas (Some 100) (Some 50) None None \<noteq> Pixels [Num 0, Num 0, Num 0, Num 255]
   \<and> get blank_canvas (Some 101) (Some 50) None None = Pixels [Num 0, Num 0, Num 0, Num 255]"
proof -
  have d: "getImageData blank_canvas 100 50 1 1 = [0, 0, 0, 0]"
    by (simp add: blank_canvas_def transparent_black_def)
  have c: "copy_pixels [0, 0, 0, 0] 0 [] = [Num 0, Num 0, Num 0, Num 0]"
    by (simp add: byte_at_def)
  have a: "get blank_canvas (Some 100) (Some 50) None None = Pixels [Num 0, Num 0, Num 0, Num 0]"
    using get_at_right_edge [of blank_canvas 50] d c by (simp add: blank_canvas_def)
  have b: "get blank_canvas (Some 101) (Some 50) None None = Pixels [Num 0, Num 0, Num 0, Num 255]"
    by (rule get_beyond) (simp add: blank_canvas_def)
  show ?thesis using a b by simp
qed

end
